theory Spec2Isabelle
  imports Complex_Main
begin

section \<open>Meeting-analysis bot: a shallow embedding of main.py\<close>

text \<open>
  The program is a sequential pipeline over external services (Drive, a local
  speech-to-text model, a language model, a spreadsheet). Every external call is
  modelled by its outcome, supplied as a parameter; every \<^verbatim>\<open>raise\<close> is the
  \<open>Inl\<close> branch of a result; every \<^verbatim>\<open>try/except\<close> is a case distinction on it. The
  mutable world (temporary files, the worksheet, the folder membership of the Drive
  files, and the sequence of calls made so far) is passed explicitly.
\<close>

subsection \<open>Values\<close>

text \<open>Python exceptions, by class.\<close>

datatype exn = OSError | HttpError | APIError | JSONDecodeError | AttributeError
  | ValueError | RuntimeError

text \<open>
  A Python \<^verbatim>\<open>float\<close>: a number, an infinity, or not-a-number (rounding is left out:
  nothing in the program computes with one).
\<close>

datatype pyfloat = Finite real | PosInf | NegInf | NaN

text \<open>
  What \<^verbatim>\<open>json.loads\<close> can return. \<open>JNull\<close> is Python's \<^verbatim>\<open>None\<close>; an object is the
  dict as an association list (first binding of a key is the dict's binding).
\<close>

datatype json = JNull | JBool bool | JInt int | JFloat pyfloat | JStr string
  | JArr "json list" | JObj "(string \<times> json) list"

text \<open>Python truthiness, as \<^verbatim>\<open>if x:\<close> tests it.\<close>

fun truthy :: "json \<Rightarrow> bool" where
  "truthy JNull = False"
| "truthy (JBool b) = b"
| "truthy (JInt n) = (n \<noteq> 0)"
| "truthy (JFloat x) = (x \<noteq> Finite 0)"
| "truthy (JStr s) = (s \<noteq> [])"
| "truthy (JArr xs) = (xs \<noteq> [])"
| "truthy (JObj kvs) = (kvs \<noteq> [])"

text \<open>
  \<^verbatim>\<open>data.get(key, default)\<close>: only a dict has the method; on any other value the
  attribute lookup raises.
\<close>

fun py_get :: "json \<Rightarrow> string \<Rightarrow> json \<Rightarrow> exn + json" where
  "py_get (JObj kvs) k d = Inr (case map_of kvs k of Some v \<Rightarrow> v | None \<Rightarrow> d)"
| "py_get _ k d = Inl AttributeError"

text \<open>A list comprehension whose element expression may raise: the first raise wins.\<close>

fun comprehension :: "('a \<Rightarrow> exn + 'b) \<Rightarrow> 'a list \<Rightarrow> exn + 'b list" where
  "comprehension f [] = Inr []"
| "comprehension f (x # xs) =
     (case f x of Inl e \<Rightarrow> Inl e
      | Inr y \<Rightarrow> (case comprehension f xs of Inl e \<Rightarrow> Inl e | Inr ys \<Rightarrow> Inr (y # ys)))"

subsection \<open>The world and the calls made\<close>

type_synonym bytes = "nat list"

text \<open>
  The text the speech-to-text model gives and the Transcriber works on: a Python
  \<^verbatim>\<open>str\<close> as the list of its code points. \<open>ascii\<close> gives the code points of a literal
  of the source.
\<close>

type_synonym ustr = "nat list"

definition ascii :: "string \<Rightarrow> ustr" where
  "ascii s = map of_char s"

datatype event =
    CallList string                 \<comment> \<open>Drive file listing of a folder\<close>
  | CallDownload string             \<comment> \<open>\<^verbatim>\<open>download_file\<close> entered, file id\<close>
  | CallTranscribe string           \<comment> \<open>\<^verbatim>\<open>transcribe_audio\<close> entered, file name\<close>
  | CallAnalyze string              \<comment> \<open>\<^verbatim>\<open>analyze_transcript_with_gemini\<close> entered, owner\<close>
  | CallWrite                       \<comment> \<open>\<^verbatim>\<open>write_to_google_sheets\<close> entered\<close>
  | WroteHeader "string list"       \<comment> \<open>the header \<^verbatim>\<open>append_row\<close> succeeded\<close>
  | WroteRow "json list"            \<comment> \<open>the record \<^verbatim>\<open>append_row\<close> succeeded\<close>
  | CallArchive string              \<comment> \<open>\<^verbatim>\<open>move_file_to_processed\<close> entered, file id\<close>
  | Sleep nat                       \<comment> \<open>\<^verbatim>\<open>time.sleep\<close>, seconds\<close>

record world =
  tmp_files :: "string \<rightharpoonup> bytes"      \<comment> \<open>local files, path to content\<close>
  worksheet :: "string list list"     \<comment> \<open>first worksheet: rows of cell texts, row 1 first\<close>
  parents :: "string \<Rightarrow> string set"   \<comment> \<open>Drive: file id to the folders holding it\<close>
  trace :: "event list"               \<comment> \<open>calls made so far, oldest first\<close>

definition emit :: "event \<Rightarrow> world \<Rightarrow> world" where
  "emit ev w = w\<lparr>trace := trace w @ [ev]\<rparr>"

subsection \<open>Configuration\<close>

definition GOOGLE_SHEET_ID :: string where
  "GOOGLE_SHEET_ID = ''12vuVG0jTs5GUFaywj3piz6zk44X92JeB''"

definition PROCESSED_FOLDER_ID :: string where
  "PROCESSED_FOLDER_ID = ''1fI7QAr1MwJlh4FTJGezb5LTXGDqMpmXT''"

text \<open>\<^verbatim>\<open>s.split(c)\<close> for a one-character separator: never empty, keeps empty pieces.\<close>

fun split_on :: "char \<Rightarrow> string \<Rightarrow> string list" where
  "split_on c [] = [[]]"
| "split_on c (x # xs) =
     (case split_on c xs of
        [] \<Rightarrow> [[x]]
      | p # ps \<Rightarrow> if x = c then [] # p # ps else (x # p) # ps)"

definition get_id_from_url :: "string \<Rightarrow> string" where
  "get_id_from_url url = hd (split_on CHR ''?'' (last (split_on CHR ''/'' url)))"

definition TEAM_FOLDERS :: "(string \<times> string) list" where
  "TEAM_FOLDERS =
    [(''Sharath'', get_id_from_url ''https://drive.google.com/drive/folders/1Ddvswz50pgniX3WTQdV-gd2wEz56di5H?usp=sharing''),
     (''Tavish'', get_id_from_url ''https://drive.google.com/drive/folders/1ug6CVE96qLJNfmwLdC631Zz5KSyVO9FK?usp=sharing''),
     (''Sripal'', get_id_from_url ''https://drive.google.com/drive/folders/19F77ZKyCQgEb43HidnmFMrPxT9Z6NqcW?usp=sharing''),
     (''Musthafa'', get_id_from_url ''https://drive.google.com/drive/folders/1kwg9bnZq_CgKE0YKXfDqnMvJHVz7VI3e?usp=sharing''),
     (''Hemanth'', get_id_from_url ''https://drive.google.com/drive/folders/148aNehlAkHFL_gpX73Ko61ftg0XgE_ye?usp=sharing''),
     (''Darshan'', get_id_from_url ''https://drive.google.com/drive/folders/1BciBnzjxbeCnPlPsTCVVhv1NH2BxmIGl?usp=sharing''),
     (''Vishal'', get_id_from_url ''https://drive.google.com/drive/folders/1ZFE5sAVMOlJcHC5r3LEVZzbEnZzOvY-G?usp=sharing''),
     (''Rahul'', get_id_from_url ''https://drive.google.com/drive/folders/1kxThyuSLuMUmM3GFF4H7PcVx8yUzasix?usp=sharing''),
     (''Akshay'', get_id_from_url ''https://drive.google.com/drive/folders/13gXYRgpi4xzhLMWppa8ZI2Ljr_wZHAQF?usp=sharing'')]"

subsection \<open>The environment\<close>

text \<open>
  What the process is started with, and the library functions the code calls whose
  result is a function of their argument only.
\<close>

record env =
  environ :: "string \<rightharpoonup> string"              \<comment> \<open>\<^verbatim>\<open>os.environ\<close>\<close>
  json_loads :: "string \<Rightarrow> json option"        \<comment> \<open>\<^verbatim>\<open>json.loads\<close>; \<open>None\<close> when it raises\<close>
  splitext_ext :: "string \<Rightarrow> string"            \<comment> \<open>\<^verbatim>\<open>os.path.splitext(p)[1]\<close>\<close>
  cell_text :: "json \<Rightarrow> string"                 \<comment> \<open>the text the spreadsheet shows for a value entered\<close>
  credentials_exn :: "json \<Rightarrow> exn option"       \<comment> \<open>\<^verbatim>\<open>Credentials.from_service_account_info\<close>\<close>
  build_exn :: "exn option"                      \<comment> \<open>\<^verbatim>\<open>build("drive", "v3", ...)\<close>\<close>
  authorize_exn :: "exn option"                  \<comment> \<open>\<^verbatim>\<open>gspread.authorize\<close>\<close>
  files_list :: "string \<Rightarrow> exn + (string \<times> string) list"
                                                 \<comment> \<open>the listing of a folder: (id, name) of each file\<close>

definition GCP_SERVICE_ACCOUNT_KEY :: "env \<Rightarrow> string option" where
  "GCP_SERVICE_ACCOUNT_KEY env = environ env ''GCP_SA_KEY''"

definition GEMINI_API_KEY :: "env \<Rightarrow> string option" where
  "GEMINI_API_KEY env = environ env ''GEMINI_API_KEY''"

text \<open>\<^verbatim>\<open>not s\<close> for a value that is a string or \<^verbatim>\<open>None\<close>.\<close>

fun falsy :: "string option \<Rightarrow> bool" where
  "falsy None = True"
| "falsy (Some s) = (s = [])"

text \<open>
  The outcomes of the external calls made while one file is processed, in the order
  the pipeline makes them.
\<close>

record calls =
  get_media :: "exn + bytes"                     \<comment> \<open>the chunked download: the bytes, or the raise\<close>
  tmp_create :: "string \<Rightarrow> exn + string"        \<comment> \<open>\<^verbatim>\<open>NamedTemporaryFile(suffix, delete=False)\<close>: the path\<close>
  tmp_write_exn :: "exn option"                  \<comment> \<open>\<^verbatim>\<open>temp_file.write(...)\<close> and the close\<close>
  whisper :: "bytes \<Rightarrow> exn + ustr list"         \<comment> \<open>model load, \<^verbatim>\<open>transcribe\<close>, reading the segments: their texts\<close>
  remove_exn :: "exn option"                     \<comment> \<open>\<^verbatim>\<open>os.remove\<close>\<close>
  generate :: "ustr \<Rightarrow> string \<Rightarrow> exn + string"
                                                 \<comment> \<open>transcript, owner: \<^verbatim>\<open>generate_content(prompt).text\<close>\<close>
  open_exn :: "exn option"                       \<comment> \<open>\<^verbatim>\<open>open_by_key\<close>, \<^verbatim>\<open>get_worksheet\<close>\<close>
  row_values_exn :: "exn option"                 \<comment> \<open>\<^verbatim>\<open>row_values(1)\<close>\<close>
  append_header_exn :: "exn option"              \<comment> \<open>\<^verbatim>\<open>append_row(header_keys)\<close>\<close>
  append_row_exn :: "exn option"                 \<comment> \<open>\<^verbatim>\<open>append_row(row_to_insert)\<close>\<close>
  update_exn :: "exn option"                     \<comment> \<open>\<^verbatim>\<open>files().update(...).execute()\<close>\<close>

subsection \<open>Credential Provider\<close>

datatype client = DriveService | SheetsClient

definition authenticate_google_services :: "env \<Rightarrow> client option \<times> client option" where
  "authenticate_google_services env =
    (case GCP_SERVICE_ACCOUNT_KEY env of
       None \<Rightarrow> (None, None)
     | Some key \<Rightarrow>
        if key = [] then (None, None)
        else (case json_loads env key of
           None \<Rightarrow> (None, None)
         | Some creds_info \<Rightarrow>
            (case credentials_exn env creds_info of
               Some e \<Rightarrow> (None, None)
             | None \<Rightarrow>
                (case build_exn env of
                   Some e \<Rightarrow> (None, None)
                 | None \<Rightarrow>
                    (case authorize_exn env of
                       Some e \<Rightarrow> (None, None)
                     | None \<Rightarrow> (Some DriveService, Some SheetsClient))))))"

subsection \<open>File Downloader\<close>

definition download_file :: "calls \<Rightarrow> string \<Rightarrow> world \<Rightarrow> world \<times> (exn + bytes)" where
  "download_file fc file_id w = (emit (CallDownload file_id) w, get_media fc)"

subsection \<open>Transcriber\<close>

text \<open>
  \<^verbatim>\<open>str.strip()\<close> removes, at both ends, the code points for which \<^verbatim>\<open>str.isspace\<close>
  holds. Over all of Unicode these are U+0009 to U+000D, U+001C to U+0020, U+0085,
  U+00A0, U+1680, U+2000 to U+200A, U+2028, U+2029, U+202F, U+205F and U+3000.
\<close>

definition is_space :: "nat \<Rightarrow> bool" where
  "is_space c =
     (c \<in> {9..13} \<union> {28..32} \<union> {133, 160, 5760} \<union> {8192..8202}
          \<union> {8232, 8233, 8239, 8287, 12288})"

definition strip :: "ustr \<Rightarrow> ustr" where
  "strip s = rev (dropWhile is_space (rev (dropWhile is_space s)))"

text \<open>\<^verbatim>\<open>sep.join(xs)\<close>\<close>

fun join_str :: "'a list \<Rightarrow> 'a list list \<Rightarrow> 'a list" where
  "join_str sep [] = []"
| "join_str sep [x] = x"
| "join_str sep (x # y # ys) = x @ sep @ join_str sep (y # ys)"

text \<open>
  The \<^verbatim>\<open>with\<close> block comes before the \<^verbatim>\<open>try\<close>: a raise in it leaves the function
  at once. In the \<^verbatim>\<open>try\<close>, a raise gives \<^verbatim>\<open>None\<close>; the \<^verbatim>\<open>finally\<close> clause runs
  on both ways out, and a raise of its own replaces the value returned.
\<close>

definition transcribe_audio ::
  "env \<Rightarrow> calls \<Rightarrow> bytes \<Rightarrow> string \<Rightarrow> world \<Rightarrow> world \<times> (exn + ustr option)" where
  "transcribe_audio env fc file_content original_filename w0 =
    (let w = emit (CallTranscribe original_filename) w0 in
     case tmp_create fc (splitext_ext env original_filename) of
       Inl e \<Rightarrow> (w, Inl e)
     | Inr temp_file_path \<Rightarrow>
        (let w1 = w\<lparr>tmp_files := (tmp_files w)(temp_file_path \<mapsto> [])\<rparr> in
         case tmp_write_exn fc of
           Some e \<Rightarrow> (w1, Inl e)
         | None \<Rightarrow>
            (let w2 = w1\<lparr>tmp_files := (tmp_files w1)(temp_file_path \<mapsto> file_content)\<rparr>;
                 result = (case whisper fc file_content of
                             Inl e \<Rightarrow> None
                           | Inr segments \<Rightarrow> Some (strip (join_str (ascii '' '') segments)))
             in case remove_exn fc of
                  Some e \<Rightarrow> (w2, Inl e)
                | None \<Rightarrow> (w2\<lparr>tmp_files := (tmp_files w2)(temp_file_path := None)\<rparr>, Inr result))))"

subsection \<open>Analyzer\<close>

text \<open>
  The prompt is a fixed text around the transcript and the owner name, so the model's
  reply is taken as a function of those two. \<^verbatim>\<open>genai.configure\<close> only stores the key.
  The value returned is Python's: \<open>JNull\<close> is \<^verbatim>\<open>None\<close>.
\<close>

definition analyze_transcript_with_gemini ::
  "env \<Rightarrow> calls \<Rightarrow> ustr \<Rightarrow> string \<Rightarrow> world \<Rightarrow> world \<times> json" where
  "analyze_transcript_with_gemini env fc transcript owner_name w0 =
    (let w = emit (CallAnalyze owner_name) w0 in
     if falsy (GEMINI_API_KEY env) then (w, JNull)
     else (case generate fc transcript owner_name of
        Inl e \<Rightarrow> (w, JNull)
      | Inr response_text \<Rightarrow>
         (case json_loads env response_text of
            None \<Rightarrow> (w, JNull)
          | Some v \<Rightarrow> (w, v))))"

subsection \<open>The spreadsheet provider\<close>

text \<open>
  The worksheet is a grid read and written through two calls. A row is kept as the
  provider returns it, without trailing empty cells, so a blank row is \<open>[]\<close>.
  \<^verbatim>\<open>row_values(n)\<close> gives row \<open>n\<close> (counted from 1), \<open>[]\<close> when the row is blank or
  beyond the data. \<^verbatim>\<open>append_row(values)\<close> writes the values as a new row after the
  last row that holds data; each value is stored as the text the provider shows for it
  (with \<^verbatim>\<open>USER_ENTERED\<close> the provider parses what it is given).
\<close>

definition row_values :: "string list list \<Rightarrow> nat \<Rightarrow> string list" where
  "row_values ws n = (if 1 \<le> n \<and> n \<le> length ws then ws ! (n - 1) else [])"

definition data_rows :: "string list list \<Rightarrow> string list list" where
  "data_rows ws = rev (dropWhile (\<lambda>r. r = []) (rev ws))"

definition append_row :: "env \<Rightarrow> json list \<Rightarrow> string list list \<Rightarrow> string list list" where
  "append_row env vals ws = data_rows ws @ [map (cell_text env) vals]"

subsection \<open>Sheet Writer\<close>

definition header_keys :: "string list" where
  "header_keys =
    [''Date'', ''POC Name'', ''Society Name'', ''Visit Type'', ''Meeting Type'',
     ''Amount Value'', ''Months'', ''Deal Status'', ''Vendor Leads'', ''Society Leads'',
     ''Opening Pitch Score'', ''Product Pitch Score'', ''Cross-Sell / Opportunity Handling'',
     ''Closing Effectiveness'', ''Negotiation Strength'', ''Overall Sentiment'',
     ''Total Score'', ''% Score'', ''Risks / Unresolved Issues'', ''Improvements Needed'',
     ''Owner'', ''Email Id'', ''Kibana ID'', ''Manager'', ''Product Pitch'', ''Team'',
     ''Media Link'', ''Doc Link'', ''Suggestions & Missed Topics'', ''Pre-meeting brief'',
     ''Meeting duration (min)'', ''Rebuttal Handling'', ''Rapport Building'',
     ''Improvement Areas'', ''Product Knowledge Displayed'',
     ''Call Effectiveness and Control'', ''Next Step Clarity and Commitment'',
     ''Missed Opportunities'', ''Key Discussion Points'', ''Key Questions'',
     ''Competition Discussion'', ''Action items'', ''Positive Factors'',
     ''Negative Factors'', ''Customer Needs'', ''Overall Client Sentiment'',
     ''Feature Checklist Coverage'']"

text \<open>
  Lines 213 to 218: the headers to project on, read from row 1 or, when row 1 is
  empty, written first.
\<close>

definition read_or_write_headers :: "env \<Rightarrow> calls \<Rightarrow> world \<Rightarrow> world \<times> (exn + string list)" where
  "read_or_write_headers env fc w =
    (case row_values_exn fc of
       Some e \<Rightarrow> (w, Inl e)
     | None \<Rightarrow>
        (let headers = row_values (worksheet w) 1 in
         if headers = [] then
           (case append_header_exn fc of
              Some e \<Rightarrow> (w, Inl e)
            | None \<Rightarrow>
               (emit (WroteHeader header_keys)
                  (w\<lparr>worksheet := append_row env (map JStr header_keys) (worksheet w)\<rparr>),
                Inr header_keys))
         else (w, Inr headers)))"

text \<open>\<^verbatim>\<open>[data.get(header, "N/A") for header in headers]\<close>\<close>

definition row_to_insert :: "json \<Rightarrow> string list \<Rightarrow> exn + json list" where
  "row_to_insert data headers =
     comprehension (\<lambda>header. py_get data header (JStr ''N/A'')) headers"

text \<open>
  The \<^verbatim>\<open>try\<close> block of \<^verbatim>\<open>write_to_google_sheets\<close>: the world it leaves, and
  whether it raised.
\<close>

definition write_try :: "env \<Rightarrow> calls \<Rightarrow> json \<Rightarrow> world \<Rightarrow> world \<times> (exn + unit)" where
  "write_try env fc data w =
    (case open_exn fc of
       Some e \<Rightarrow> (w, Inl e)
     | None \<Rightarrow>
        (case read_or_write_headers env fc w of
           (w1, Inl e) \<Rightarrow> (w1, Inl e)
         | (w1, Inr headers) \<Rightarrow>
            (case row_to_insert data headers of
               Inl e \<Rightarrow> (w1, Inl e)
             | Inr row \<Rightarrow>
                (case append_row_exn fc of
                   Some e \<Rightarrow> (w1, Inl e)
                 | None \<Rightarrow>
                    (emit (WroteRow row)
                       (w1\<lparr>worksheet := append_row env row (worksheet w1)\<rparr>),
                     Inr ())))))"

text \<open>
  The function: the \<^verbatim>\<open>except Exception\<close> clause logs and falls through, and nothing
  is returned.
\<close>

definition write_to_google_sheets :: "env \<Rightarrow> calls \<Rightarrow> json \<Rightarrow> world \<Rightarrow> world" where
  "write_to_google_sheets env fc data w = fst (write_try env fc data (emit CallWrite w))"

subsection \<open>Archiver\<close>

definition move_file_to_processed :: "calls \<Rightarrow> string \<Rightarrow> string \<Rightarrow> world \<Rightarrow> world" where
  "move_file_to_processed fc file_id source_folder_id w0 =
    (let w = emit (CallArchive file_id) w0 in
     case update_exn fc of
       Some e \<Rightarrow> w
     | None \<Rightarrow>
        w\<lparr>parents := (parents w)
             (file_id := insert PROCESSED_FOLDER_ID (parents w file_id - {source_folder_id}))\<rparr>)"

subsection \<open>Orchestrator\<close>

text \<open>
  The body of the per-file \<^verbatim>\<open>try\<close> (lines 269 to 278). \<open>outcomes\<close> gives, for a file
  id, the outcomes of the external calls made for it.
\<close>

definition file_try ::
  "env \<Rightarrow> (string \<Rightarrow> calls) \<Rightarrow> string \<Rightarrow> string \<Rightarrow> string \<times> string \<Rightarrow> world \<Rightarrow> world \<times> (exn + unit)" where
  "file_try env outcomes member_name folder_id file w =
    (let file_id = fst file; file_name = snd file; fc = outcomes file_id in
     case download_file fc file_id w of
       (w1, Inl e) \<Rightarrow> (w1, Inl e)
     | (w1, Inr file_content) \<Rightarrow>
        (case transcribe_audio env fc file_content file_name w1 of
           (w2, Inl e) \<Rightarrow> (w2, Inl e)
         | (w2, Inr None) \<Rightarrow> (w2, Inr ())
         | (w2, Inr (Some transcript)) \<Rightarrow>
            if transcript \<noteq> [] then
              (case analyze_transcript_with_gemini env fc transcript member_name w2 of
                 (w3, analysis_data) \<Rightarrow>
                   (emit (Sleep 20)
                      (if truthy analysis_data then
                         move_file_to_processed fc file_id folder_id
                           (write_to_google_sheets env fc analysis_data w3)
                       else w3),
                    Inr ()))
            else (w2, Inr ())))"

text \<open>The \<^verbatim>\<open>except Exception\<close> of the file loop logs and goes on to the next file.\<close>

definition process_file ::
  "env \<Rightarrow> (string \<Rightarrow> calls) \<Rightarrow> string \<Rightarrow> string \<Rightarrow> string \<times> string \<Rightarrow> world \<Rightarrow> world" where
  "process_file env outcomes member_name folder_id file w =
     fst (file_try env outcomes member_name folder_id file w)"

fun process_files ::
  "env \<Rightarrow> (string \<Rightarrow> calls) \<Rightarrow> string \<Rightarrow> string \<Rightarrow> (string \<times> string) list \<Rightarrow> world \<Rightarrow> world" where
  "process_files env outcomes member_name folder_id [] w = w"
| "process_files env outcomes member_name folder_id (file # files) w =
     process_files env outcomes member_name folder_id files
       (process_file env outcomes member_name folder_id file w)"

text \<open>
  One turn of the folder loop: a raise of the listing is caught by the outer
  \<^verbatim>\<open>except\<close>; an empty listing is \<^verbatim>\<open>continue\<close>.
\<close>

definition process_folder ::
  "env \<Rightarrow> (string \<Rightarrow> calls) \<Rightarrow> string \<times> string \<Rightarrow> world \<Rightarrow> world" where
  "process_folder env outcomes entry w0 =
    (let member_name = fst entry; folder_id = snd entry;
         w = emit (CallList folder_id) w0 in
     case files_list env folder_id of
       Inl e \<Rightarrow> w
     | Inr files \<Rightarrow>
        if files = [] then w
        else process_files env outcomes member_name folder_id files w)"

fun process_folders ::
  "env \<Rightarrow> (string \<Rightarrow> calls) \<Rightarrow> (string \<times> string) list \<Rightarrow> world \<Rightarrow> world" where
  "process_folders env outcomes [] w = w"
| "process_folders env outcomes (entry # entries) w =
     process_folders env outcomes entries (process_folder env outcomes entry w)"

definition main :: "env \<Rightarrow> (string \<Rightarrow> calls) \<Rightarrow> world \<Rightarrow> world" where
  "main env outcomes w =
    (if GOOGLE_SHEET_ID = [] \<or> PROCESSED_FOLDER_ID = [] then w
     else (case authenticate_google_services env of
        (drive_service, gsheets_client) \<Rightarrow>
          if drive_service = None \<or> gsheets_client = None then w
          else process_folders env outcomes TEAM_FOLDERS w))"

subsection \<open>Reading the trace\<close>

text \<open>The calls made between two worlds of one run.\<close>

definition since :: "world \<Rightarrow> world \<Rightarrow> event list" where
  "since w w' = drop (length (trace w)) (trace w')"

fun is_header_write :: "event \<Rightarrow> bool" where
  "is_header_write (WroteHeader hs) = True"
| "is_header_write _ = False"

definition header_writes :: "world \<Rightarrow> nat" where
  "header_writes w = length (filter is_header_write (trace w))"

text \<open>Successive invocations of the Sheet Writer, each with its own call outcomes.\<close>

fun write_all :: "env \<Rightarrow> (calls \<times> json) list \<Rightarrow> world \<Rightarrow> world" where
  "write_all env [] w = w"
| "write_all env (x # xs) w = write_all env xs (write_to_google_sheets env (fst x) (snd x) w)"

text \<open>The header list an invocation projects on: row 1 as read, or the keys just written.\<close>

definition headers_used :: "world \<Rightarrow> string list" where
  "headers_used w = (if row_values (worksheet w) 1 = [] then header_keys else row_values (worksheet w) 1)"

subsection \<open>The spec's notions\<close>

text \<open>
  The join in the spec's words: the segments' texts in the order returned, with a
  single space (U+0020) between one text and the next.
\<close>

fun single_spaced :: "ustr list \<Rightarrow> ustr" where
  "single_spaced [] = []"
| "single_spaced (s # rest) = s @ concat (map (\<lambda>x. 32 # x) rest)"

text \<open>
  A JSON text by the grammar of RFC 8259, as a recogniser: each function takes the
  text still to read and gives what is left after the part it accepts. The first
  argument of the mutually recursive ones bounds the number of nested calls; of two
  calls in a row one reads a character, so twice the length of the text is enough.
\<close>

definition json_ws :: "char \<Rightarrow> bool" where
  "json_ws c = (c = CHR 0x20 \<or> c = CHR 0x09 \<or> c = CHR 0x0A \<or> c = CHR 0x0D)"

definition skip_ws :: "string \<Rightarrow> string" where
  "skip_ws s = dropWhile json_ws s"

definition is_digit :: "char \<Rightarrow> bool" where
  "is_digit c = (48 \<le> (of_char c :: nat) \<and> (of_char c :: nat) \<le> 57)"

definition is_hex :: "char \<Rightarrow> bool" where
  "is_hex c = (is_digit c \<or> (65 \<le> (of_char c :: nat) \<and> (of_char c :: nat) \<le> 70)
                \<or> (97 \<le> (of_char c :: nat) \<and> (of_char c :: nat) \<le> 102))"

definition eat :: "string \<Rightarrow> string \<Rightarrow> string option" where
  "eat word s = (if take (length word) s = word then Some (drop (length word) s) else None)"

definition digits1 :: "string \<Rightarrow> string option" where
  "digits1 s = (case s of [] \<Rightarrow> None
                | c # r \<Rightarrow> if is_digit c then Some (dropWhile is_digit r) else None)"

definition json_int :: "string \<Rightarrow> string option" where
  "json_int s = (case s of [] \<Rightarrow> None
                 | c # r \<Rightarrow> if c = CHR ''0'' then Some r else digits1 s)"

definition json_frac :: "string \<Rightarrow> string option" where
  "json_frac s = (case s of [] \<Rightarrow> Some s
                  | c # r \<Rightarrow> if c = CHR ''.'' then digits1 r else Some s)"

definition json_exp :: "string \<Rightarrow> string option" where
  "json_exp s = (case s of [] \<Rightarrow> Some s
                 | c # r \<Rightarrow>
                    if c = CHR ''e'' \<or> c = CHR ''E'' then
                      (case r of [] \<Rightarrow> None
                       | d # r' \<Rightarrow> if d = CHR ''+'' \<or> d = CHR ''-'' then digits1 r' else digits1 r)
                    else Some s)"

definition json_number :: "string \<Rightarrow> string option" where
  "json_number s =
     (case json_int (case s of [] \<Rightarrow> s | c # r \<Rightarrow> if c = CHR ''-'' then r else s) of
        None \<Rightarrow> None
      | Some a \<Rightarrow> (case json_frac a of None \<Rightarrow> None | Some b \<Rightarrow> json_exp b))"

text \<open>The characters of a string after its opening quotation mark, up to the closing one.\<close>

fun json_chars :: "string \<Rightarrow> string option" where
  "json_chars [] = None"
| "json_chars (c # r) =
     (if c = CHR 0x22 then Some r
      else if c = CHR 0x5C then
        (case r of
           [] \<Rightarrow> None
         | e # r' \<Rightarrow>
            if e \<in> set [CHR 0x22, CHR 0x5C, CHR ''/'', CHR ''b'', CHR ''f'', CHR ''n'', CHR ''r'', CHR ''t'']
            then json_chars r'
            else if e = CHR ''u'' then
              (case r' of
                 h1 # h2 # h3 # h4 # r'' \<Rightarrow>
                   if is_hex h1 \<and> is_hex h2 \<and> is_hex h3 \<and> is_hex h4 then json_chars r'' else None
               | _ \<Rightarrow> None)
            else None)
      else if (of_char c :: nat) < 32 then None
      else json_chars r)"

definition json_string :: "string \<Rightarrow> string option" where
  "json_string s = (case s of [] \<Rightarrow> None
                    | c # r \<Rightarrow> if c = CHR 0x22 then json_chars r else None)"

fun json_value :: "nat \<Rightarrow> string \<Rightarrow> string option"
  and json_elements :: "nat \<Rightarrow> string \<Rightarrow> string option"
  and json_members :: "nat \<Rightarrow> string \<Rightarrow> string option" where
  "json_value 0 s = None"
| "json_value (Suc n) s =
     (case s of
        [] \<Rightarrow> None
      | c # r \<Rightarrow>
         if c = CHR ''['' then
           (case skip_ws r of
              [] \<Rightarrow> None
            | d # r' \<Rightarrow> if d = CHR '']'' then Some r' else json_elements n (d # r'))
         else if c = CHR ''{'' then
           (case skip_ws r of
              [] \<Rightarrow> None
            | d # r' \<Rightarrow> if d = CHR ''}'' then Some r' else json_members n (d # r'))
         else if c = CHR 0x22 then json_string s
         else if c = CHR ''t'' then eat ''true'' s
         else if c = CHR ''f'' then eat ''false'' s
         else if c = CHR ''n'' then eat ''null'' s
         else json_number s)"
| "json_elements 0 s = None"
| "json_elements (Suc n) s =
     (case json_value n s of
        None \<Rightarrow> None
      | Some r \<Rightarrow>
         (case skip_ws r of
            [] \<Rightarrow> None
          | d # r' \<Rightarrow>
             if d = CHR '','' then json_elements n (skip_ws r')
             else if d = CHR '']'' then Some r'
             else None))"
| "json_members 0 s = None"
| "json_members (Suc n) s =
     (case json_string s of
        None \<Rightarrow> None
      | Some r \<Rightarrow>
         (case skip_ws r of
            [] \<Rightarrow> None
          | colon # r1 \<Rightarrow>
             if colon \<noteq> CHR '':'' then None
             else (case json_value n (skip_ws r1) of
                None \<Rightarrow> None
              | Some r2 \<Rightarrow>
                 (case skip_ws r2 of
                    [] \<Rightarrow> None
                  | d # r3 \<Rightarrow>
                     if d = CHR '','' then json_members n (skip_ws r3)
                     else if d = CHR ''}'' then Some r3
                     else None))))"

definition valid_json :: "string \<Rightarrow> bool" where
  "valid_json s =
     (case json_value (2 * length s + 2) (skip_ws s) of
        None \<Rightarrow> False
      | Some r \<Rightarrow> skip_ws r = [])"

subsection \<open>Sample inputs\<close>

text \<open>Concrete environments, call outcomes and worlds on which the properties are evaluated.\<close>

definition quoted :: "string \<Rightarrow> string" where
  "quoted s = CHR 0x22 # s @ [CHR 0x22]"

definition acme_reply :: string where
  "acme_reply = ''{'' @ quoted ''Society Name'' @ '': '' @ quoted ''Acme'' @ ''}''"

definition acme_record :: json where
  "acme_record = JObj [(''Society Name'', JStr ''Acme'')]"

definition sample_env :: env where
  "sample_env =
    \<lparr>environ = [''GCP_SA_KEY'' \<mapsto> ''{}'', ''GEMINI_API_KEY'' \<mapsto> ''key''],
     json_loads = (\<lambda>s. if s = ''{}'' then Some (JObj [])
                        else if s = acme_reply then Some acme_record
                        else if s = ''['' @ acme_reply @ '']'' then Some (JArr [acme_record])
                        else if s = ''NaN'' then Some (JFloat NaN)
                        else None),
     splitext_ext = (\<lambda>p. ''.mp3''),
     cell_text = (\<lambda>v. case v of JStr s \<Rightarrow> s | _ \<Rightarrow> ''#''),
     credentials_exn = (\<lambda>info. None),
     build_exn = None,
     authorize_exn = None,
     files_list = (\<lambda>folder. Inr [])\<rparr>"

definition ok_calls :: calls where
  "ok_calls =
    \<lparr>get_media = Inr [73, 68, 51],
     tmp_create = (\<lambda>suffix. Inr (''/tmp/tmpk3'' @ suffix)),
     tmp_write_exn = None,
     whisper = (\<lambda>content. Inr [ascii '' hello'', ascii '' world'']),
     remove_exn = None,
     generate = (\<lambda>transcript owner. Inr acme_reply),
     open_exn = None,
     row_values_exn = None,
     append_header_exn = None,
     append_row_exn = None,
     update_exn = None\<rparr>"

definition fresh_world :: world where
  "fresh_world =
    \<lparr>tmp_files = Map.empty, worksheet = [],
     parents = (\<lambda>file. if file = ''f1'' then {''folder-1''} else {}),
     trace = []\<rparr>"

text \<open>A worksheet whose row 1 is blank while a later row holds data.\<close>

definition blank_row1_world :: world where
  "blank_row1_world = fresh_world\<lparr>worksheet := [[], [''old note'']]\<rparr>"

text \<open>The call outcomes of a file whose temporary copy cannot be written.\<close>

definition write_fails_calls :: calls where
  "write_fails_calls = ok_calls\<lparr>tmp_write_exn := Some OSError\<rparr>"

text \<open>Call outcomes of a file for which the language model replies with a JSON list.\<close>

definition list_reply_calls :: calls where
  "list_reply_calls = ok_calls\<lparr>generate := (\<lambda>transcript owner. Inr (''['' @ acme_reply @ '']''))\<rparr>"

text \<open>Call outcomes of a file for which the language model replies with plain prose.\<close>

definition prose_reply_calls :: calls where
  "prose_reply_calls = ok_calls\<lparr>generate := (\<lambda>transcript owner. Inr ''Sure, here it is'')\<rparr>"

text \<open>Call outcomes of a file on which the speech-to-text model raises.\<close>

definition model_fails_calls :: calls where
  "model_fails_calls = ok_calls\<lparr>whisper := (\<lambda>content. Inl RuntimeError)\<rparr>"

text \<open>Call outcomes of a file in which the model hears nothing: one segment, a blank.\<close>

definition silent_calls :: calls where
  "silent_calls = ok_calls\<lparr>whisper := (\<lambda>content. Inr [ascii '' ''])\<rparr>"

text \<open>An environment without the service-account secret, and one where it does not parse.\<close>

definition no_secret_env :: env where
  "no_secret_env = sample_env\<lparr>environ := [''GEMINI_API_KEY'' \<mapsto> ''key'']\<rparr>"

definition bad_secret_env :: env where
  "bad_secret_env = sample_env\<lparr>environ := [''GCP_SA_KEY'' \<mapsto> ''{type: '', ''GEMINI_API_KEY'' \<mapsto> ''key'']\<rparr>"

text \<open>Call outcomes of a file for which the language model replies with the text NaN.\<close>

definition nan_reply_calls :: calls where
  "nan_reply_calls = ok_calls\<lparr>generate := (\<lambda>transcript owner. Inr ''NaN'')\<rparr>"

text \<open>
  Call outcomes of a file with four segments, the first led by U+3000 and the last
  trailed by U+2009 and a line feed.
\<close>

definition four_segment_calls :: calls where
  "four_segment_calls =
     ok_calls\<lparr>whisper := (\<lambda>content. Inr [12288 # ascii ''one'', ascii ''two'', ascii ''three'',
                                          ascii ''four'' @ [8201, 10]])\<rparr>"

section \<open>Properties\<close>

subsection \<open>Basic facts\<close>

lemma trace_emit: "trace (emit ev w) = trace w @ [ev]"
  by (simp add: emit_def)

lemma worksheet_emit: "worksheet (emit ev w) = worksheet w"
  by (simp add: emit_def)

lemma comprehension_total: "comprehension (\<lambda>x. Inr (g x)) xs = Inr (map g xs)"
  by (induction xs) simp_all

lemma row_to_insert_obj:
  "row_to_insert (JObj kvs) hs =
     Inr (map (\<lambda>h. case map_of kvs h of Some v \<Rightarrow> v | None \<Rightarrow> JStr ''N/A'') hs)"
  by (simp add: row_to_insert_def comprehension_total)

lemma write_rows:
  "WroteRow row \<in> set (since w (write_to_google_sheets env fc (JObj kvs) w)) \<Longrightarrow>
    row = map (\<lambda>h. case map_of kvs h of Some v \<Rightarrow> v | None \<Rightarrow> JStr ''N/A'') (headers_used w)"
  unfolding write_to_google_sheets_def write_try_def since_def headers_used_def
  by (auto simp: read_or_write_headers_def Let_def trace_emit worksheet_emit emit_def row_to_insert_obj row_values_def split: option.splits if_splits sum.splits prod.splits)

lemma data_rows_Cons:
  "data_rows (r # rs) = (if r = [] \<and> data_rows rs = [] then [] else r # data_rows rs)"
  by (auto simp: data_rows_def dropWhile_append)

lemma row1_data_rows:
  "row_values ws (Suc 0) \<noteq> [] \<Longrightarrow> row_values (data_rows ws @ rs) (Suc 0) = row_values ws (Suc 0)"
  by (cases ws) (auto simp: row_values_def data_rows_Cons)

lemma row1_append_row:
  "row_values ws (Suc 0) \<noteq> [] \<Longrightarrow>
     row_values (append_row env vals ws) (Suc 0) = row_values ws (Suc 0)"
  by (simp add: append_row_def row1_data_rows)

lemma row1_blank: "data_rows ws = [] \<Longrightarrow> row_values ws (Suc 0) = []"
  by (cases ws) (auto simp: row_values_def data_rows_Cons split: if_splits)

lemma row1_after_header:
  "data_rows ws = [] \<Longrightarrow> row_values (append_row env (map JStr header_keys) ws) (Suc 0) \<noteq> []"
  by (simp add: append_row_def row_values_def header_keys_def)

lemma header_writes_emit:
  "header_writes (emit ev w) = header_writes w + (if is_header_write ev then 1 else 0)"
  by (simp add: header_writes_def emit_def)

lemma header_writes_worksheet_update [simp]:
  "header_writes (w\<lparr>worksheet := ws\<rparr>) = header_writes w"
  by (simp add: header_writes_def)

lemma write_headed:
  assumes "row_values (worksheet w) (Suc 0) \<noteq> []"
  shows "header_writes (write_to_google_sheets env fc d w) = header_writes w"
    and "row_values (worksheet (write_to_google_sheets env fc d w)) (Suc 0) = row_values (worksheet w) (Suc 0)"
  using assms
  by (auto simp: write_to_google_sheets_def write_try_def read_or_write_headers_def Let_def
      header_writes_emit worksheet_emit row1_append_row
      split: option.splits sum.splits)

lemma write_blank:
  assumes "data_rows (worksheet w) = []"
  shows "(worksheet (write_to_google_sheets env fc d w) = worksheet w \<and>
          header_writes (write_to_google_sheets env fc d w) = header_writes w) \<or>
         (row_values (worksheet (write_to_google_sheets env fc d w)) (Suc 0) \<noteq> [] \<and>
          header_writes (write_to_google_sheets env fc d w) = header_writes w + 1)"
  using assms row1_blank[OF assms] row1_after_header[OF assms, of env]
  by (auto simp: write_to_google_sheets_def write_try_def read_or_write_headers_def Let_def
      header_writes_emit worksheet_emit row1_append_row
      split: option.splits sum.splits)

lemma write_header_guard:
  "header_writes (write_to_google_sheets env fc d w) \<le> header_writes w + 1 \<and>
   (header_writes (write_to_google_sheets env fc d w) \<noteq> header_writes w \<longrightarrow>
      row_values (worksheet w) (Suc 0) = [])"
  by (auto simp: write_to_google_sheets_def write_try_def read_or_write_headers_def Let_def
      header_writes_emit worksheet_emit
      split: option.splits sum.splits)

lemma write_all_headed:
  "row_values (worksheet w) (Suc 0) \<noteq> [] \<Longrightarrow>
     header_writes (write_all env xs w) = header_writes w \<and>
     row_values (worksheet (write_all env xs w)) (Suc 0) = row_values (worksheet w) (Suc 0)"
proof (induction xs arbitrary: w)
  case Nil
  then show ?case by simp
next
  case (Cons x xs)
  let ?w' = "write_to_google_sheets env (fst x) (snd x) w"
  have h: "header_writes ?w' = header_writes w"
    and r: "row_values (worksheet ?w') (Suc 0) = row_values (worksheet w) (Suc 0)"
    using write_headed[OF Cons.prems] by simp_all
  from r Cons.prems have "row_values (worksheet ?w') (Suc 0) \<noteq> []" by simp
  from Cons.IH[OF this] h r show ?case by simp
qed

lemma write_all_blank:
  "data_rows (worksheet w) = [] \<Longrightarrow> header_writes (write_all env xs w) \<le> header_writes w + 1"
proof (induction xs arbitrary: w)
  case Nil
  then show ?case by simp
next
  case (Cons x xs)
  let ?w' = "write_to_google_sheets env (fst x) (snd x) w"
  from write_blank[OF Cons.prems, of env "fst x" "snd x"]
  consider (same) "worksheet ?w' = worksheet w" "header_writes ?w' = header_writes w"
    | (headed) "row_values (worksheet ?w') (Suc 0) \<noteq> []" "header_writes ?w' = header_writes w + 1"
    by blast
  then show ?case
  proof cases
    case same
    with Cons.prems have "data_rows (worksheet ?w') = []" by simp
    from Cons.IH[OF this] same show ?thesis by simp
  next
    case headed
    from write_all_headed[OF headed(1), of env xs] headed(2) show ?thesis by simp
  qed
qed

lemma write_first_header:
  assumes "data_rows (worksheet w) = []" "open_exn fc = None" "row_values_exn fc = None"
    "append_header_exn fc = None"
  shows "header_writes (write_to_google_sheets env fc d w) = header_writes w + 1"
    and "row_values (worksheet (write_to_google_sheets env fc d w)) (Suc 0) \<noteq> []"
  using assms row1_blank[OF assms(1)] row1_after_header[OF assms(1), of env]
  by (auto simp: write_to_google_sheets_def write_try_def read_or_write_headers_def Let_def
      header_writes_emit worksheet_emit row1_append_row
      split: option.splits sum.splits)

subsection \<open>Sheet Writer: the appended row\<close>

text \<open>
  C1. Whatever header list the invocation projects on (row 1 as read, or the
  canonical keys it has just written because row 1 was empty), every row the Sheet
  Writer appends for a record has one cell per header, in header order; cell \<open>i\<close> is
  the record's value under header \<open>i\<close>, and the string \<open>N/A\<close> when the record has no such
  key; the row is what lands at the end of the worksheet. When no spreadsheet call
  raises, the row is appended.
\<close>

theorem appended_row_projects_record:
  assumes "headers = (if row_values (worksheet w) 1 = [] then header_keys
                      else row_values (worksheet w) 1)"
  shows "(\<forall>row. WroteRow row \<in> set (since w (write_to_google_sheets env fc (JObj kvs) w)) \<longrightarrow>
            length row = length headers \<and>
            (\<forall>i<length headers.
               row ! i = (case map_of kvs (headers ! i) of Some v \<Rightarrow> v | None \<Rightarrow> JStr ''N/A'')) \<and>
            last (worksheet (write_to_google_sheets env fc (JObj kvs) w)) = map (cell_text env) row) \<and>
         (open_exn fc = None \<and> row_values_exn fc = None \<and> append_header_exn fc = None \<and>
          append_row_exn fc = None \<longrightarrow>
            (\<exists>row. last (trace (write_to_google_sheets env fc (JObj kvs) w)) = WroteRow row))"
proof -
  let ?w' = "write_to_google_sheets env fc (JObj kvs) w"
  have hu: "headers_used w = headers"
    using assms by (simp add: headers_used_def)
  have sound: "length row = length headers \<and>
      (\<forall>i<length headers.
         row ! i = (case map_of kvs (headers ! i) of Some v \<Rightarrow> v | None \<Rightarrow> JStr ''N/A'')) \<and>
      last (worksheet ?w') = map (cell_text env) row"
    if a: "WroteRow row \<in> set (since w ?w')" for row
  proof -
    from write_rows[OF a] hu
    have row: "row = map (\<lambda>h. case map_of kvs h of Some v \<Rightarrow> v | None \<Rightarrow> JStr ''N/A'') headers"
      by simp
    have "last (worksheet ?w') = map (cell_text env) row"
      using a unfolding row hu[symmetric] headers_used_def
      by (auto simp: write_to_google_sheets_def write_try_def since_def read_or_write_headers_def
          Let_def trace_emit worksheet_emit emit_def row_to_insert_obj append_row_def
          split: option.splits if_splits sum.splits prod.splits)
    then show ?thesis by (simp add: row)
  qed
  have live: "\<exists>row. last (trace ?w') = WroteRow row"
    if "open_exn fc = None \<and> row_values_exn fc = None \<and> append_header_exn fc = None \<and>
        append_row_exn fc = None"
    using that
    by (simp add: write_to_google_sheets_def write_try_def read_or_write_headers_def
        Let_def trace_emit row_to_insert_obj)
  from sound live show ?thesis by blast
qed

theorem appended_row_projects_record_witness:
  "WroteRow [JStr ''Acme'', JStr ''N/A'']
     \<in> set (since (fresh_world\<lparr>worksheet := [[''Society Name'', ''Owner'']]\<rparr>)
         (write_to_google_sheets sample_env ok_calls acme_record
            (fresh_world\<lparr>worksheet := [[''Society Name'', ''Owner'']]\<rparr>))) \<and>
   worksheet (write_to_google_sheets sample_env ok_calls acme_record
            (fresh_world\<lparr>worksheet := [[''Society Name'', ''Owner'']]\<rparr>))
     = [[''Society Name'', ''Owner''], [''Acme'', ''N/A'']]"
  using appended_row_projects_record
    [of "[''Society Name'', ''Owner'']" "fresh_world\<lparr>worksheet := [[''Society Name'', ''Owner'']]\<rparr>"
        sample_env ok_calls "[(''Society Name'', JStr ''Acme'')]"]
  by (simp add: acme_record_def fresh_world_def sample_env_def ok_calls_def
      write_to_google_sheets_def write_try_def read_or_write_headers_def Let_def since_def
      emit_def row_values_def row_to_insert_def append_row_def data_rows_def)

subsection \<open>Sheet Writer: the header row\<close>

text \<open>
  C2, as stated, fails: on a worksheet whose row 1 is blank but whose row 2 holds data,
  the appended header row lands after the data, row 1 stays blank, and two
  invocations write the header row twice.
\<close>

theorem header_rewritten_counterexample:
  "row_values (worksheet blank_row1_world) 1 = [] \<and>
   header_writes (write_all sample_env [(ok_calls, acme_record), (ok_calls, acme_record)]
     blank_row1_world) = 2"
  by (simp add: blank_row1_world_def fresh_world_def sample_env_def ok_calls_def acme_record_def
      write_to_google_sheets_def write_try_def read_or_write_headers_def Let_def
      emit_def row_values_def row_to_insert_def append_row_def data_rows_def header_writes_def
      header_keys_def)

text \<open>
  C2, amended. One invocation writes the header row at most once, and only when row 1
  is empty. Over any sequence of invocations on a worksheet whose row 1 is not empty,
  no header row is written and row 1 stays as it is. Over any sequence of invocations
  on a worksheet that holds no data at all, the header row is written at most once,
  and exactly once when the open, read and header-append calls of the first invocation
  do not raise.
\<close>

theorem header_written_only_when_row1_empty:
  "header_writes (write_to_google_sheets env fc d w) \<le> header_writes w + 1 \<and>
   (header_writes (write_to_google_sheets env fc d w) \<noteq> header_writes w \<longrightarrow>
      row_values (worksheet w) 1 = []) \<and>
   (row_values (worksheet w) 1 \<noteq> [] \<longrightarrow>
      header_writes (write_all env xs w) = header_writes w \<and>
      row_values (worksheet (write_all env xs w)) 1 = row_values (worksheet w) 1) \<and>
   (data_rows (worksheet w) = [] \<longrightarrow>
      header_writes (write_all env xs w) \<le> header_writes w + 1) \<and>
   (data_rows (worksheet w) = [] \<and> open_exn fc = None \<and> row_values_exn fc = None \<and>
    append_header_exn fc = None \<longrightarrow>
      header_writes (write_all env ((fc, d) # xs) w) = header_writes w + 1)"
proof -
  have once: "header_writes (write_all env ((fc, d) # xs) w) = header_writes w + 1"
    if "data_rows (worksheet w) = []" "open_exn fc = None" "row_values_exn fc = None"
      "append_header_exn fc = None"
  proof -
    from write_first_header[OF that, of env d]
    have h: "header_writes (write_to_google_sheets env fc d w) = header_writes w + 1"
      and r: "row_values (worksheet (write_to_google_sheets env fc d w)) (Suc 0) \<noteq> []"
      by simp_all
    from write_all_headed[OF r, of env xs] h show ?thesis by simp
  qed
  show ?thesis
    using write_header_guard[of env fc d w] write_all_headed[of w env xs]
      write_all_blank[of w env xs] once
    unfolding One_nat_def by blast
qed

theorem header_written_only_when_row1_empty_witness:
  "row_values (worksheet (fresh_world\<lparr>worksheet := [[''Society Name'', ''Owner'']]\<rparr>)) 1 \<noteq> [] \<and>
   header_writes (write_all sample_env [(ok_calls, acme_record), (ok_calls, acme_record)]
     (fresh_world\<lparr>worksheet := [[''Society Name'', ''Owner'']]\<rparr>)) = 0 \<and>
   row_values (worksheet (write_all sample_env [(ok_calls, acme_record), (ok_calls, acme_record)]
     (fresh_world\<lparr>worksheet := [[''Society Name'', ''Owner'']]\<rparr>))) 1
     = [''Society Name'', ''Owner''] \<and>
   data_rows (worksheet fresh_world) = [] \<and>
   header_writes (write_all sample_env [(ok_calls, acme_record), (ok_calls, acme_record)]
     fresh_world) = 1"
  using header_written_only_when_row1_empty
      [of sample_env ok_calls acme_record "fresh_world\<lparr>worksheet := [[''Society Name'', ''Owner'']]\<rparr>"
          "[(ok_calls, acme_record), (ok_calls, acme_record)]"]
    header_written_only_when_row1_empty
      [of sample_env ok_calls acme_record fresh_world "[(ok_calls, acme_record)]"]
  by (simp add: fresh_world_def ok_calls_def row_values_def data_rows_def header_writes_def)

subsection \<open>Transcriber: basic facts\<close>

lemma transcribe_audio_effect:
  assumes "transcribe_audio env fc content name w = (w', r)"
  shows "trace w' = trace w @ [CallTranscribe name]"
    and "worksheet w' = worksheet w" and "parents w' = parents w"
  using assms
  by (auto simp: transcribe_audio_def Let_def emit_def split: sum.splits option.splits)

lemma temp_file_removed:
  assumes "tmp_create fc (splitext_ext env name) = Inr path"
    and "tmp_write_exn fc = None" and "remove_exn fc = None"
  shows "tmp_files (fst (transcribe_audio env fc content name w)) path = None"
  using assms by (simp add: transcribe_audio_def Let_def emit_def split: sum.splits)

lemma rev_dropWhile_split:
  "t = rev (dropWhile P (rev t)) @ rev (takeWhile P (rev t))"
  by (metis rev_append rev_rev_ident takeWhile_dropWhile_id)

lemma rev_dropWhile_ends:
  assumes "dropWhile P (rev t) \<noteq> []"
  shows "hd (rev (dropWhile P (rev t))) = hd t"
    and "\<not> P (last (rev (dropWhile P (rev t))))"
proof -
  from assms have "rev (dropWhile P (rev t)) \<noteq> []" by simp
  then show "hd (rev (dropWhile P (rev t))) = hd t"
    using rev_dropWhile_split[of t P] by (metis hd_append2)
  from assms have "\<not> P (hd (dropWhile P (rev t)))" by (rule hd_dropWhile)
  with assms show "\<not> P (last (rev (dropWhile P (rev t))))" by (simp add: last_rev)
qed

lemma join_str_single_spaced: "join_str (ascii '' '') segments = single_spaced segments"
  by (induction "ascii '' ''" segments rule: join_str.induct) (simp_all add: ascii_def)

lemma is_space_samples:
  "is_space 32 \<and> is_space 10 \<and> is_space 160 \<and> is_space 12288 \<and> is_space 8201 \<and>
   \<not> is_space 8203 \<and> \<not> is_space 95 \<and> \<not> is_space 65279"
  by (simp add: is_space_def)

lemma strip_parts:
  "\<exists>pre post. s = pre @ strip s @ post \<and> (\<forall>c\<in>set pre. is_space c) \<and> (\<forall>c\<in>set post. is_space c)"
proof -
  let ?t = "dropWhile is_space s"
  have 1: "s = takeWhile is_space s @ ?t" by simp
  have 3: "?t = strip s @ rev (takeWhile is_space (rev ?t))"
    unfolding strip_def by (rule rev_dropWhile_split)
  have "s = takeWhile is_space s @ strip s @ rev (takeWhile is_space (rev ?t))"
    using 1 3 by metis
  moreover have "\<forall>c\<in>set (takeWhile is_space s). is_space c"
    by (auto dest: set_takeWhileD)
  moreover have "\<forall>c\<in>set (rev (takeWhile is_space (rev ?t))). is_space c"
    by (auto dest: set_takeWhileD)
  ultimately show ?thesis by blast
qed

lemma strip_ends:
  assumes "strip s \<noteq> []"
  shows "\<not> is_space (hd (strip s))" and "\<not> is_space (last (strip s))"
proof -
  let ?t = "dropWhile is_space s"
  from assms have u: "dropWhile is_space (rev ?t) \<noteq> []" by (simp add: strip_def)
  from rev_dropWhile_ends(2)[OF u] show "\<not> is_space (last (strip s))"
    by (simp add: strip_def)
  have "?t \<noteq> []"
  proof
    assume e: "?t = []"
    have "dropWhile is_space (rev ?t) = []" unfolding e by simp
    with u show False by contradiction
  qed
  then have "\<not> is_space (hd ?t)" by (rule hd_dropWhile)
  with rev_dropWhile_ends(1)[OF u] show "\<not> is_space (hd (strip s))"
    by (simp add: strip_def)
qed

subsection \<open>Transcriber\<close>

text \<open>
  C8. When the temporary file is written, the model returns its segments and the file
  is deleted, the transcript returned is the segments' texts, in order, with a single
  space between neighbours (\<open>single_spaced\<close>), without its longest whitespace prefix
  and suffix: what is cut off at either end is whitespace only, and the transcript
  neither starts nor ends with whitespace. It is what the code computes, the join
  stripped.
\<close>

theorem transcript_is_joined_and_stripped:
  assumes "tmp_create fc (splitext_ext env name) = Inr path"
    and "tmp_write_exn fc = None"
    and "whisper fc content = Inr segments"
    and "remove_exn fc = None"
  shows "\<exists>t. snd (transcribe_audio env fc content name w) = Inr (Some t) \<and>
           t = strip (join_str (ascii '' '') segments) \<and>
           (\<exists>pre post. single_spaced segments = pre @ t @ post \<and>
              (\<forall>c\<in>set pre. is_space c) \<and> (\<forall>c\<in>set post. is_space c)) \<and>
           (t \<noteq> [] \<longrightarrow> \<not> is_space (hd t) \<and> \<not> is_space (last t))"
proof -
  have "snd (transcribe_audio env fc content name w)
          = Inr (Some (strip (join_str (ascii '' '') segments)))"
    using assms by (simp add: transcribe_audio_def Let_def)
  with strip_parts[of "join_str (ascii '' '') segments"]
    strip_ends[of "join_str (ascii '' '') segments"]
  show ?thesis unfolding join_str_single_spaced by blast
qed

theorem transcript_is_joined_and_stripped_witness:
  "snd (transcribe_audio sample_env four_segment_calls [73, 68, 51] ''call.mp3'' fresh_world)
     = Inr (Some (ascii ''one two three four''))"
proof -
  have "strip (join_str (ascii '' '')
          [12288 # ascii ''one'', ascii ''two'', ascii ''three'', ascii ''four'' @ [8201, 10]])
        = ascii ''one two three four''"
    by (simp add: strip_def is_space_def ascii_def)
  then show ?thesis
    using transcript_is_joined_and_stripped
      [where fc = four_segment_calls and env = sample_env and name = "''call.mp3''"
         and path = "''/tmp/tmpk3.mp3''" and content = "[73, 68, 51]"
         and segments = "[12288 # ascii ''one'', ascii ''two'', ascii ''three'',
                          ascii ''four'' @ [8201, 10]]"
         and w = fresh_world]
    by (simp add: four_segment_calls_def ok_calls_def sample_env_def)
qed

text \<open>
  C3. The write of the temporary file lies before the \<^verbatim>\<open>try\<close> whose \<^verbatim>\<open>finally\<close>
  deletes it. When the write raises, the file just created is still there when the
  function is left.
\<close>

theorem temp_file_left_when_write_fails:
  "tmp_files fresh_world ''/tmp/tmpk3.mp3'' = None \<and>
   tmp_files (fst (transcribe_audio sample_env write_fails_calls [73, 68, 51] ''call.mp3''
      fresh_world)) ''/tmp/tmpk3.mp3'' \<noteq> None"
  by (simp add: transcribe_audio_def write_fails_calls_def ok_calls_def sample_env_def
      fresh_world_def emit_def Let_def)


subsection \<open>Orchestrator: basic facts\<close>

lemma analyze_effect:
  "fst (analyze_transcript_with_gemini env fc t owner w) = emit (CallAnalyze owner) w"
  by (simp add: analyze_transcript_with_gemini_def Let_def split: sum.splits option.splits)

lemma write_effect:
  "\<exists>evs. trace (write_to_google_sheets env fc d w) = trace w @ CallWrite # evs \<and>
         set evs \<subseteq> range WroteHeader \<union> range WroteRow"
  by (auto simp: write_to_google_sheets_def write_try_def read_or_write_headers_def Let_def
      emit_def split: option.splits sum.splits)

lemma write_parents: "parents (write_to_google_sheets env fc d w) = parents w"
  by (auto simp: write_to_google_sheets_def write_try_def read_or_write_headers_def Let_def
      emit_def split: option.splits sum.splits)

lemma move_effect:
  "trace (move_file_to_processed fc file_id folder w) = trace w @ [CallArchive file_id]"
  "worksheet (move_file_to_processed fc file_id folder w) = worksheet w"
  by (simp_all add: move_file_to_processed_def Let_def emit_def split: option.splits)

lemma move_parents:
  "update_exn fc = None \<Longrightarrow>
     parents (move_file_to_processed fc file_id folder w) file_id
       = insert PROCESSED_FOLDER_ID (parents w file_id - {folder})"
  by (simp add: move_file_to_processed_def Let_def emit_def)

lemma process_file_download_raises:
  "get_media (outcomes file_id) = Inl e \<Longrightarrow>
     process_file env outcomes member folder (file_id, name) w = emit (CallDownload file_id) w"
  by (simp add: process_file_def file_try_def download_file_def)

lemma process_file_skip:
  assumes "get_media (outcomes file_id) = Inr content"
    and "snd (transcribe_audio env (outcomes file_id) content name (emit (CallDownload file_id) w)) = r"
    and "(\<exists>e. r = Inl e) \<or> r = Inr None \<or> r = Inr (Some [])"
  shows "process_file env outcomes member folder (file_id, name) w
           = fst (transcribe_audio env (outcomes file_id) content name (emit (CallDownload file_id) w))"
  using assms
  by (auto simp: process_file_def file_try_def download_file_def Let_def
      split: prod.splits sum.splits option.splits)

lemma process_file_go:
  assumes "get_media (outcomes file_id) = Inr content"
    and "transcribe_audio env (outcomes file_id) content name (emit (CallDownload file_id) w)
           = (w2, Inr (Some t))"
    and "t \<noteq> []"
    and "analyze_transcript_with_gemini env (outcomes file_id) t member w2 = (w3, d)"
  shows "process_file env outcomes member folder (file_id, name) w
           = emit (Sleep 20)
               (if truthy d then
                  move_file_to_processed (outcomes file_id) file_id folder
                    (write_to_google_sheets env (outcomes file_id) d w3)
                else w3)"
  using assms
  by (simp add: process_file_def file_try_def download_file_def Let_def)

lemma since_append: "trace w' = trace w @ evs \<Longrightarrow> since w w' = evs"
  by (simp add: since_def)

lemma process_file_skip_trace:
  assumes "get_media (outcomes file_id) = Inr content"
    and "snd (transcribe_audio env (outcomes file_id) content name (emit (CallDownload file_id) w)) = r"
    and "(\<exists>e. r = Inl e) \<or> r = Inr None \<or> r = Inr (Some [])"
  shows "since w (process_file env outcomes member folder (file_id, name) w)
           = [CallDownload file_id, CallTranscribe name]"
    and "worksheet (process_file env outcomes member folder (file_id, name) w) = worksheet w"
    and "parents (process_file env outcomes member folder (file_id, name) w) = parents w"
proof -
  let ?tr = "transcribe_audio env (outcomes file_id) content name (emit (CallDownload file_id) w)"
  have eq: "process_file env outcomes member folder (file_id, name) w = fst ?tr"
    using assms by (rule process_file_skip)
  have p: "?tr = (fst ?tr, snd ?tr)" by simp
  from transcribe_audio_effect[OF p]
  show "since w (process_file env outcomes member folder (file_id, name) w)
           = [CallDownload file_id, CallTranscribe name]"
    and "worksheet (process_file env outcomes member folder (file_id, name) w) = worksheet w"
    and "parents (process_file env outcomes member folder (file_id, name) w) = parents w"
    unfolding eq by (simp_all add: since_def emit_def)
qed

lemma process_file_go_trace:
  assumes "get_media (outcomes file_id) = Inr content"
    and "snd (transcribe_audio env (outcomes file_id) content name (emit (CallDownload file_id) w))
           = Inr (Some t)"
    and "t \<noteq> []"
    and "d = snd (analyze_transcript_with_gemini env (outcomes file_id) t member
                    (fst (transcribe_audio env (outcomes file_id) content name
                            (emit (CallDownload file_id) w))))"
  shows "\<exists>evs. since w (process_file env outcomes member folder (file_id, name) w)
             = [CallDownload file_id, CallTranscribe name, CallAnalyze member] @ evs @ [Sleep 20] \<and>
           (if truthy d
            then \<exists>sheet_evs. evs = CallWrite # sheet_evs @ [CallArchive file_id] \<and>
                   set sheet_evs \<subseteq> range WroteHeader \<union> range WroteRow
            else evs = [])"
    and "\<not> truthy d \<Longrightarrow>
           worksheet (process_file env outcomes member folder (file_id, name) w) = worksheet w \<and>
           parents (process_file env outcomes member folder (file_id, name) w) = parents w"
proof -
  let ?fc = "outcomes file_id"
  let ?tr = "transcribe_audio env ?fc content name (emit (CallDownload file_id) w)"
  let ?w2 = "fst ?tr"
  let ?an = "analyze_transcript_with_gemini env ?fc t member ?w2"
  let ?w3 = "emit (CallAnalyze member) ?w2"
  have tr: "?tr = (?w2, Inr (Some t))" using assms(2) by (metis prod.collapse)
  have an: "?an = (?w3, d)" using assms(4) analyze_effect[of env ?fc t member ?w2]
    by (metis prod.collapse)
  have pf: "process_file env outcomes member folder (file_id, name) w
      = emit (Sleep 20)
          (if truthy d then
             move_file_to_processed ?fc file_id folder (write_to_google_sheets env ?fc d ?w3)
           else ?w3)"
    using assms(1) tr assms(3) an by (rule process_file_go)
  have t2: "trace ?w2 = trace w @ [CallDownload file_id, CallTranscribe name]"
    and ws2: "worksheet ?w2 = worksheet w" and pa2: "parents ?w2 = parents w"
    using transcribe_audio_effect[OF tr] by (simp_all add: emit_def)
  have t3: "trace ?w3 = trace w @ [CallDownload file_id, CallTranscribe name, CallAnalyze member]"
    using t2 by (simp add: emit_def)
  show "\<exists>evs. since w (process_file env outcomes member folder (file_id, name) w)
             = [CallDownload file_id, CallTranscribe name, CallAnalyze member] @ evs @ [Sleep 20] \<and>
           (if truthy d
            then \<exists>sheet_evs. evs = CallWrite # sheet_evs @ [CallArchive file_id] \<and>
                   set sheet_evs \<subseteq> range WroteHeader \<union> range WroteRow
            else evs = [])"
  proof (cases "truthy d")
    case True
    from write_effect[of env ?fc d ?w3] obtain sheet_evs where
      w: "trace (write_to_google_sheets env ?fc d ?w3) = trace ?w3 @ CallWrite # sheet_evs"
      and sub: "set sheet_evs \<subseteq> range WroteHeader \<union> range WroteRow" by blast
    have "trace (process_file env outcomes member folder (file_id, name) w)
            = trace w @ [CallDownload file_id, CallTranscribe name, CallAnalyze member]
                @ (CallWrite # sheet_evs @ [CallArchive file_id]) @ [Sleep 20]"
      unfolding pf using True w t3 by (simp add: trace_emit move_effect)
    then have "since w (process_file env outcomes member folder (file_id, name) w)
            = [CallDownload file_id, CallTranscribe name, CallAnalyze member]
                @ (CallWrite # sheet_evs @ [CallArchive file_id]) @ [Sleep 20]"
      by (rule since_append)
    with True sub show ?thesis by auto
  next
    case False
    have "trace (process_file env outcomes member folder (file_id, name) w)
            = trace w @ [CallDownload file_id, CallTranscribe name, CallAnalyze member]
                @ [] @ [Sleep 20]"
      unfolding pf using False t3 by (simp add: trace_emit)
    then have "since w (process_file env outcomes member folder (file_id, name) w)
            = [CallDownload file_id, CallTranscribe name, CallAnalyze member] @ [] @ [Sleep 20]"
      by (rule since_append)
    with False show ?thesis by auto
  qed
  show "worksheet (process_file env outcomes member folder (file_id, name) w) = worksheet w \<and>
        parents (process_file env outcomes member folder (file_id, name) w) = parents w"
    if "\<not> truthy d"
    unfolding pf using that ws2 pa2 by (simp add: emit_def)
qed

text \<open>The definitions a concrete run unfolds.\<close>

lemmas run_defs =
  process_file_def file_try_def download_file_def transcribe_audio_def
  analyze_transcript_with_gemini_def write_to_google_sheets_def write_try_def
  read_or_write_headers_def row_to_insert_def move_file_to_processed_def
  GEMINI_API_KEY_def emit_def since_def Let_def strip_def is_space_def ascii_def
  row_values_def append_row_def data_rows_def

lemmas sample_defs =
  sample_env_def ok_calls_def fresh_world_def acme_reply_def acme_record_def quoted_def

subsection \<open>Orchestrator: the wait between files\<close>

text \<open>
  C4, as stated, fails: for a file on which the model raises, the Transcriber returns
  no transcript, and the file is left after the download and the transcription with
  no wait.
\<close>

theorem no_wait_without_transcript_counterexample:
  "trace (process_file sample_env (\<lambda>file. model_fails_calls) ''Sharath'' ''folder-1''
            (''f1'', ''call.mp3'') fresh_world)
     = [CallDownload ''f1'', CallTranscribe ''call.mp3'']"
  by (simp add: run_defs sample_defs model_fails_calls_def)

text \<open>
  C4, amended. The 20-second wait is made for a file exactly when its transcription
  gave a non-empty transcript, that is, exactly when the Analyzer was called; it is
  then the last thing done for the file, whether or not the analysis produced a
  record. A file whose download or transcription raised, or whose transcript is null
  or empty, is left without a wait.
\<close>

theorem wait_follows_analysis:
  "(Sleep 20 \<in> set (since w (process_file env outcomes member folder (file_id, name) w)) \<longleftrightarrow>
      (\<exists>content t. get_media (outcomes file_id) = Inr content \<and>
         snd (transcribe_audio env (outcomes file_id) content name (emit (CallDownload file_id) w))
           = Inr (Some t) \<and> t \<noteq> [])) \<and>
   (Sleep 20 \<in> set (since w (process_file env outcomes member folder (file_id, name) w)) \<longleftrightarrow>
      CallAnalyze member \<in> set (since w (process_file env outcomes member folder (file_id, name) w))) \<and>
   (Sleep 20 \<in> set (since w (process_file env outcomes member folder (file_id, name) w)) \<longrightarrow>
      last (since w (process_file env outcomes member folder (file_id, name) w)) = Sleep 20)"
proof (cases "get_media (outcomes file_id)")
  case (Inl e)
  then have "since w (process_file env outcomes member folder (file_id, name) w)
               = [CallDownload file_id]"
    by (simp add: process_file_download_raises since_def emit_def)
  with Inl show ?thesis by simp
next
  case (Inr content)
  let ?r = "snd (transcribe_audio env (outcomes file_id) content name (emit (CallDownload file_id) w))"
  show ?thesis
  proof (cases "\<exists>t. ?r = Inr (Some t) \<and> t \<noteq> []")
    case True
    then obtain t where t: "?r = Inr (Some t)" "t \<noteq> []" by blast
    note g = process_file_go_trace(1)
      [where outcomes = outcomes and file_id = file_id and member = member and folder = folder]
    from g[OF Inr t refl]
    obtain evs where
      ev: "since w (process_file env outcomes member folder (file_id, name) w)
             = [CallDownload file_id, CallTranscribe name, CallAnalyze member] @ evs @ [Sleep 20]"
      by blast
    from Inr t show ?thesis unfolding ev by auto
  next
    case False
    have skip: "(\<exists>e. ?r = Inl e) \<or> ?r = Inr None \<or> ?r = Inr (Some [])"
    proof (cases ?r)
      case (Inl e)
      then show ?thesis by simp
    next
      case r: (Inr b)
      with False show ?thesis by (cases b) auto
    qed
    note k = process_file_skip_trace(1)
      [where outcomes = outcomes and file_id = file_id and member = member and folder = folder]
    from k[OF Inr refl skip]
    have "since w (process_file env outcomes member folder (file_id, name) w)
            = [CallDownload file_id, CallTranscribe name]" .
    with Inr False show ?thesis by auto
  qed
qed

theorem wait_follows_analysis_witness:
  "Sleep 20 \<in> set (since fresh_world
      (process_file sample_env (\<lambda>file. prose_reply_calls) ''Sharath'' ''folder-1''
         (''f1'', ''call.mp3'') fresh_world)) \<and>
   since fresh_world
      (process_file sample_env (\<lambda>file. prose_reply_calls) ''Sharath'' ''folder-1''
         (''f1'', ''call.mp3'') fresh_world)
     = [CallDownload ''f1'', CallTranscribe ''call.mp3'', CallAnalyze ''Sharath'', Sleep 20] \<and>
   Sleep 20 \<notin> set (since fresh_world
      (process_file sample_env (\<lambda>file. silent_calls) ''Sharath'' ''folder-1''
         (''f1'', ''call.mp3'') fresh_world))"
  using wait_follows_analysis
      [of fresh_world sample_env "\<lambda>file. prose_reply_calls" "''Sharath''" "''folder-1''"
          "''f1''" "''call.mp3''"]
    wait_follows_analysis
      [of fresh_world sample_env "\<lambda>file. silent_calls" "''Sharath''" "''folder-1''"
          "''f1''" "''call.mp3''"]
  by (simp add: run_defs sample_defs prose_reply_calls_def silent_calls_def)

subsection \<open>Analyzer: replies that are not JSON\<close>

lemma valid_json_samples:
  "valid_json ''{}'' \<and> valid_json acme_reply \<and> valid_json (''['' @ acme_reply @ '']'') \<and>
   valid_json '' [1, -2.5e3, null, true, false] '' \<and>
   \<not> valid_json ''Sure, here it is'' \<and> \<not> valid_json ''Infinity'' \<and>
   \<not> valid_json ''[NaN]'' \<and> \<not> valid_json ''[1,]''"
  by code_simp


text \<open>
  C5, as stated, fails: the reply NaN is not a JSON text, yet \<^verbatim>\<open>json.loads\<close> accepts
  it and gives the float not-a-number, which counts as true; the Analyzer returns it,
  and the Orchestrator calls the Sheet Writer and the Archiver and the file is moved.
\<close>

theorem non_json_reply_is_archived_counterexample:
  "\<not> valid_json ''NaN'' \<and>
   snd (analyze_transcript_with_gemini sample_env nan_reply_calls (ascii ''hello  world'')
          ''Sharath'' fresh_world) = JFloat NaN \<and>
   since fresh_world (process_file sample_env (\<lambda>file. nan_reply_calls) ''Sharath'' ''folder-1''
      (''f1'', ''call.mp3'') fresh_world)
     = [CallDownload ''f1'', CallTranscribe ''call.mp3'', CallAnalyze ''Sharath'', CallWrite,
        WroteHeader header_keys, CallArchive ''f1'', Sleep 20] \<and>
   parents (process_file sample_env (\<lambda>file. nan_reply_calls) ''Sharath'' ''folder-1''
      (''f1'', ''call.mp3'') fresh_world) ''f1'' = {PROCESSED_FOLDER_ID}"
proof -
  have "\<not> valid_json ''NaN''" by code_simp
  then show ?thesis
    by (simp add: run_defs sample_defs nan_reply_calls_def header_keys_def)
qed

text \<open>
  C5, amended. A reply of the model on which \<^verbatim>\<open>json.loads\<close> raises makes the Analyzer
  return null; the Orchestrator then calls neither the Sheet Writer nor the Archiver,
  and the worksheet and the folders of the file are as before. A reply that
  \<^verbatim>\<open>json.loads\<close> accepts is returned as parsed, with nothing put in its place or
  added.
\<close>

theorem analyzer_follows_json_loads:
  "(generate fc t owner = Inr reply \<and> json_loads env reply = None \<longrightarrow>
      snd (analyze_transcript_with_gemini env fc t owner w2) = JNull) \<and>
   (\<not> falsy (GEMINI_API_KEY env) \<and> generate fc t owner = Inr reply \<and>
    json_loads env reply = Some v \<longrightarrow>
      snd (analyze_transcript_with_gemini env fc t owner w2) = v) \<and>
   (get_media (outcomes file_id) = Inr content \<and>
    snd (transcribe_audio env (outcomes file_id) content name (emit (CallDownload file_id) w))
      = Inr (Some t) \<and> t \<noteq> [] \<and>
    generate (outcomes file_id) t member = Inr reply \<and> json_loads env reply = None \<longrightarrow>
      since w (process_file env outcomes member folder (file_id, name) w)
        = [CallDownload file_id, CallTranscribe name, CallAnalyze member, Sleep 20] \<and>
      worksheet (process_file env outcomes member folder (file_id, name) w) = worksheet w \<and>
      parents (process_file env outcomes member folder (file_id, name) w) = parents w)"
proof -
  have null: "snd (analyze_transcript_with_gemini env fc t owner w2) = JNull"
    if "generate fc t owner = Inr reply \<and> json_loads env reply = None"
    using that by (simp add: analyze_transcript_with_gemini_def Let_def)
  have parsed: "snd (analyze_transcript_with_gemini env fc t owner w2) = v"
    if "\<not> falsy (GEMINI_API_KEY env) \<and> generate fc t owner = Inr reply \<and>
        json_loads env reply = Some v"
    using that by (simp add: analyze_transcript_with_gemini_def Let_def)
  have skipped:
    "since w (process_file env outcomes member folder (file_id, name) w)
        = [CallDownload file_id, CallTranscribe name, CallAnalyze member, Sleep 20] \<and>
      worksheet (process_file env outcomes member folder (file_id, name) w) = worksheet w \<and>
      parents (process_file env outcomes member folder (file_id, name) w) = parents w"
    if a: "get_media (outcomes file_id) = Inr content \<and>
      snd (transcribe_audio env (outcomes file_id) content name (emit (CallDownload file_id) w))
        = Inr (Some t) \<and> t \<noteq> [] \<and>
      generate (outcomes file_id) t member = Inr reply \<and> json_loads env reply = None"
  proof -
    let ?d = "snd (analyze_transcript_with_gemini env (outcomes file_id) t member
                    (fst (transcribe_audio env (outcomes file_id) content name
                            (emit (CallDownload file_id) w))))"
    from a have d: "?d = JNull"
      by (simp add: analyze_transcript_with_gemini_def Let_def)
    note g = process_file_go_trace
      [where outcomes = outcomes and file_id = file_id and member = member and folder = folder
         and d = ?d and t = t and content = content and name = name and env = env and w = w]
    from a have p: "get_media (outcomes file_id) = Inr content"
      "snd (transcribe_audio env (outcomes file_id) content name (emit (CallDownload file_id) w))
        = Inr (Some t)" "t \<noteq> []" by simp_all
    from g(1)[OF p refl] d
    have "since w (process_file env outcomes member folder (file_id, name) w)
          = [CallDownload file_id, CallTranscribe name, CallAnalyze member, Sleep 20]"
      by auto
    moreover from g(2)[OF p refl] d
    have "worksheet (process_file env outcomes member folder (file_id, name) w) = worksheet w \<and>
        parents (process_file env outcomes member folder (file_id, name) w) = parents w"
      by simp
    ultimately show ?thesis by simp
  qed
  from null parsed skipped show ?thesis by blast
qed

theorem analyzer_follows_json_loads_witness:
  "snd (analyze_transcript_with_gemini sample_env prose_reply_calls (ascii ''hello  world'') ''Sharath''
          fresh_world) = JNull \<and>
   snd (analyze_transcript_with_gemini sample_env ok_calls (ascii ''hello  world'') ''Sharath''
          fresh_world) = JObj [(''Society Name'', JStr ''Acme'')] \<and>
   since fresh_world (process_file sample_env (\<lambda>file. prose_reply_calls) ''Sharath'' ''folder-1''
      (''f1'', ''call.mp3'') fresh_world)
     = [CallDownload ''f1'', CallTranscribe ''call.mp3'', CallAnalyze ''Sharath'', Sleep 20] \<and>
   parents (process_file sample_env (\<lambda>file. prose_reply_calls) ''Sharath'' ''folder-1''
      (''f1'', ''call.mp3'') fresh_world) ''f1'' = {''folder-1''}"
  using analyzer_follows_json_loads
      [where fc = prose_reply_calls and t = "ascii ''hello  world''" and owner = "''Sharath''"
         and reply = "''Sure, here it is''" and env = sample_env and ?w2.0 = fresh_world
         and outcomes = "\<lambda>file. prose_reply_calls" and file_id = "''f1''"
         and content = "[73, 68, 51]" and name = "''call.mp3''" and w = fresh_world
         and member = "''Sharath''" and folder = "''folder-1''"]
    analyzer_follows_json_loads
      [where fc = ok_calls and t = "ascii ''hello  world''" and owner = "''Sharath''"
         and reply = acme_reply and env = sample_env and ?w2.0 = fresh_world
         and v = acme_record]
  by (simp add: run_defs sample_defs prose_reply_calls_def)

subsection \<open>Orchestrator: a file without a transcript\<close>



text \<open>
  C9. A transcript that is the empty string is treated as a null one: the file is
  left after the download and the transcription, with no call of the Analyzer, the
  Sheet Writer or the Archiver and no wait, and the world is the one the same run
  reaches when the transcription gives null. The Transcriber returns the empty string
  when the joined segments are all whitespace.
\<close>

theorem empty_transcript_skips_like_null:
  "(tmp_create fc (splitext_ext env name) = Inr path \<and> tmp_write_exn fc = None \<and>
    whisper fc content = Inr segments \<and> strip (join_str (ascii '' '') segments) = [] \<and>
    remove_exn fc = None \<longrightarrow>
      snd (transcribe_audio env fc content name w1) = Inr (Some [])) \<and>
   (get_media (outcomes file_id) = Inr content \<and>
    snd (transcribe_audio env (outcomes file_id) content name (emit (CallDownload file_id) w))
      = Inr (Some []) \<longrightarrow>
      since w (process_file env outcomes member folder (file_id, name) w)
        = [CallDownload file_id, CallTranscribe name] \<and>
      worksheet (process_file env outcomes member folder (file_id, name) w) = worksheet w \<and>
      parents (process_file env outcomes member folder (file_id, name) w) = parents w \<and>
      (\<forall>outcomes' content'.
          get_media (outcomes' file_id) = Inr content' \<and>
          snd (transcribe_audio env (outcomes' file_id) content' name
                 (emit (CallDownload file_id) w)) = Inr None \<longrightarrow>
          since w (process_file env outcomes' member folder (file_id, name) w)
            = since w (process_file env outcomes member folder (file_id, name) w)))"
proof -
  have empty: "snd (transcribe_audio env fc content name w1) = Inr (Some [])"
    if "tmp_create fc (splitext_ext env name) = Inr path \<and> tmp_write_exn fc = None \<and>
        whisper fc content = Inr segments \<and> strip (join_str (ascii '' '') segments) = [] \<and>
        remove_exn fc = None"
    using that by (simp add: transcribe_audio_def Let_def)
  have skip:
    "since w (process_file env outcomes member folder (file_id, name) w)
        = [CallDownload file_id, CallTranscribe name] \<and>
      worksheet (process_file env outcomes member folder (file_id, name) w) = worksheet w \<and>
      parents (process_file env outcomes member folder (file_id, name) w) = parents w \<and>
      (\<forall>outcomes' content'.
          get_media (outcomes' file_id) = Inr content' \<and>
          snd (transcribe_audio env (outcomes' file_id) content' name
                 (emit (CallDownload file_id) w)) = Inr None \<longrightarrow>
          since w (process_file env outcomes' member folder (file_id, name) w)
            = since w (process_file env outcomes member folder (file_id, name) w))"
    if a: "get_media (outcomes file_id) = Inr content \<and>
           snd (transcribe_audio env (outcomes file_id) content name
                  (emit (CallDownload file_id) w)) = Inr (Some [])"
  proof -
    let ?tr = "transcribe_audio env (outcomes file_id) content name (emit (CallDownload file_id) w)"
    from a have g: "get_media (outcomes file_id) = Inr content"
      and r: "(\<exists>e. snd ?tr = Inl e) \<or> snd ?tr = Inr None \<or> snd ?tr = Inr (Some [])"
      by auto
    note k = process_file_skip_trace
      [where outcomes = outcomes and file_id = file_id and member = member and folder = folder]
    have same: "since w (process_file env outcomes' member folder (file_id, name) w)
            = [CallDownload file_id, CallTranscribe name]"
      if b: "get_media (outcomes' file_id) = Inr content' \<and>
          snd (transcribe_audio env (outcomes' file_id) content' name
                 (emit (CallDownload file_id) w)) = Inr None" for outcomes' content'
    proof -
      let ?tr' = "transcribe_audio env (outcomes' file_id) content' name (emit (CallDownload file_id) w)"
      from b have g': "get_media (outcomes' file_id) = Inr content'"
        and r': "(\<exists>e. snd ?tr' = Inl e) \<or> snd ?tr' = Inr None \<or> snd ?tr' = Inr (Some [])"
        by auto
      note k' = process_file_skip_trace(1)
        [where outcomes = outcomes' and file_id = file_id and member = member and folder = folder]
      from k'[OF g' refl r'] show ?thesis .
    qed
    from k[OF g refl r] same show ?thesis by auto
  qed
  from empty skip show ?thesis by blast
qed

theorem empty_transcript_skips_like_null_witness:
  "snd (transcribe_audio sample_env silent_calls [73, 68, 51] ''call.mp3'' fresh_world)
     = Inr (Some []) \<and>
   since fresh_world (process_file sample_env (\<lambda>file. silent_calls) ''Sharath'' ''folder-1''
      (''f1'', ''call.mp3'') fresh_world) = [CallDownload ''f1'', CallTranscribe ''call.mp3''] \<and>
   since fresh_world (process_file sample_env (\<lambda>file. model_fails_calls) ''Sharath'' ''folder-1''
      (''f1'', ''call.mp3'') fresh_world)
     = since fresh_world (process_file sample_env (\<lambda>file. silent_calls) ''Sharath'' ''folder-1''
      (''f1'', ''call.mp3'') fresh_world)"
proof -
  note t = empty_transcript_skips_like_null
      [where fc = silent_calls and env = sample_env and name = "''call.mp3''"
         and path = "''/tmp/tmpk3.mp3''" and content = "[73, 68, 51]" and segments = "[ascii '' '']"
         and ?w1.0 = fresh_world and w = fresh_world
         and outcomes = "\<lambda>file. silent_calls"
         and file_id = "''f1''" and member = "''Sharath''" and folder = "''folder-1''"]
  have h1: "tmp_create silent_calls (splitext_ext sample_env ''call.mp3'') = Inr ''/tmp/tmpk3.mp3'' \<and>
    tmp_write_exn silent_calls = None \<and> whisper silent_calls [73, 68, 51] = Inr [ascii '' ''] \<and>
    strip (join_str (ascii '' '') [ascii '' '']) = [] \<and> remove_exn silent_calls = None"
    by (simp add: run_defs sample_defs silent_calls_def)
  have h2: "get_media silent_calls = Inr [73, 68, 51] \<and>
    snd (transcribe_audio sample_env silent_calls [73, 68, 51] ''call.mp3''
           (emit (CallDownload ''f1'') fresh_world)) = Inr (Some [])"
    by (simp add: run_defs sample_defs silent_calls_def)
  have h3: "get_media model_fails_calls = Inr [73, 68, 51] \<and>
    snd (transcribe_audio sample_env model_fails_calls [73, 68, 51] ''call.mp3''
           (emit (CallDownload ''f1'') fresh_world)) = Inr None"
    by (simp add: run_defs sample_defs model_fails_calls_def)
  from t h1 have a: "snd (transcribe_audio sample_env silent_calls [73, 68, 51] ''call.mp3'' fresh_world)
     = Inr (Some [])" by blast
  from t h2 have b: "since fresh_world (process_file sample_env (\<lambda>file. silent_calls) ''Sharath''
      ''folder-1'' (''f1'', ''call.mp3'') fresh_world) = [CallDownload ''f1'', CallTranscribe ''call.mp3'']"
    by blast
  from t h2 have "\<forall>outcomes' content'.
          get_media (outcomes' ''f1'') = Inr content' \<and>
          snd (transcribe_audio sample_env (outcomes' ''f1'') content' ''call.mp3''
                 (emit (CallDownload ''f1'') fresh_world)) = Inr None \<longrightarrow>
          since fresh_world (process_file sample_env outcomes' ''Sharath'' ''folder-1'' (''f1'', ''call.mp3'') fresh_world)
            = since fresh_world (process_file sample_env (\<lambda>file. silent_calls) ''Sharath'' ''folder-1'' (''f1'', ''call.mp3'') fresh_world)"
    by blast
  from this[rule_format, of "\<lambda>file. model_fails_calls" "[73, 68, 51]"] h3
  have c: "since fresh_world (process_file sample_env (\<lambda>file. model_fails_calls) ''Sharath'' ''folder-1''
      (''f1'', ''call.mp3'') fresh_world)
     = since fresh_world (process_file sample_env (\<lambda>file. silent_calls) ''Sharath'' ''folder-1''
      (''f1'', ''call.mp3'') fresh_world)" by simp
  from a b c show ?thesis by simp
qed

subsection \<open>Sheet Writer: when no row is written\<close>

lemma row_to_insert_not_dict:
  "hs \<noteq> [] \<Longrightarrow> \<forall>kvs. d \<noteq> JObj kvs \<Longrightarrow> row_to_insert d hs = Inl AttributeError"
  by (cases hs; cases d) (simp_all add: row_to_insert_def)

lemma write_no_row:
  assumes "open_exn fc \<noteq> None \<or> row_values_exn fc \<noteq> None \<or> append_row_exn fc \<noteq> None \<or>
           (\<forall>kvs. d \<noteq> JObj kvs)"
  shows "\<exists>evs. trace (write_to_google_sheets env fc d w) = trace w @ CallWrite # evs \<and>
           set evs \<subseteq> range WroteHeader"
proof (cases "\<forall>kvs. d \<noteq> JObj kvs")
  case True
  have "row_to_insert d header_keys = Inl AttributeError"
    using True by (intro row_to_insert_not_dict) (simp_all add: header_keys_def)
  moreover have "row_to_insert d hs = Inl AttributeError" if "hs \<noteq> []" for hs
    using True that by (intro row_to_insert_not_dict)
  ultimately show ?thesis
    by (auto simp: write_to_google_sheets_def write_try_def read_or_write_headers_def Let_def
        emit_def split: option.splits sum.splits)
next
  case False
  with assms have "open_exn fc \<noteq> None \<or> row_values_exn fc \<noteq> None \<or> append_row_exn fc \<noteq> None"
    by blast
  then show ?thesis
    by (auto simp: write_to_google_sheets_def write_try_def read_or_write_headers_def Let_def
        emit_def split: option.splits sum.splits)
qed

subsection \<open>Orchestrator: archiving after the Sheet Writer\<close>

text \<open>
  C10. When the analysis returns a value that counts as true, the Orchestrator calls
  the Sheet Writer and then the Archiver, whatever the spreadsheet calls did: the
  Sheet Writer returns nothing and lets no exception out. When the folder update
  succeeds the file is in the processed folder and out of its source folder; when the
  Sheet Writer could not open the sheet, read row 1 or append the row, or the value is
  not a dict, no row was recorded for the file all the same.
\<close>

theorem archive_does_not_depend_on_write:
  assumes "get_media (outcomes file_id) = Inr content"
    and "snd (transcribe_audio env (outcomes file_id) content name (emit (CallDownload file_id) w))
           = Inr (Some t)"
    and "t \<noteq> []"
    and "d = snd (analyze_transcript_with_gemini env (outcomes file_id) t member
                    (fst (transcribe_audio env (outcomes file_id) content name
                            (emit (CallDownload file_id) w))))"
    and "truthy d"
  shows "(\<exists>sheet_evs. since w (process_file env outcomes member folder (file_id, name) w)
            = [CallDownload file_id, CallTranscribe name, CallAnalyze member, CallWrite]
                @ sheet_evs @ [CallArchive file_id, Sleep 20] \<and>
            set sheet_evs \<subseteq> range WroteHeader \<union> range WroteRow \<and>
            (open_exn (outcomes file_id) \<noteq> None \<or> row_values_exn (outcomes file_id) \<noteq> None \<or>
             append_row_exn (outcomes file_id) \<noteq> None \<or> (\<forall>kvs. d \<noteq> JObj kvs) \<longrightarrow>
               set sheet_evs \<subseteq> range WroteHeader)) \<and>
         (update_exn (outcomes file_id) = None \<longrightarrow>
            parents (process_file env outcomes member folder (file_id, name) w) file_id
              = insert PROCESSED_FOLDER_ID (parents w file_id - {folder}))"
proof -
  let ?fc = "outcomes file_id"
  let ?tr = "transcribe_audio env ?fc content name (emit (CallDownload file_id) w)"
  let ?w2 = "fst ?tr"
  let ?an = "analyze_transcript_with_gemini env ?fc t member ?w2"
  let ?w3 = "emit (CallAnalyze member) ?w2"
  let ?ws = "write_to_google_sheets env ?fc d ?w3"
  have tr: "?tr = (?w2, Inr (Some t))" using assms(2) by (metis prod.collapse)
  have an: "?an = (?w3, d)" using assms(4) analyze_effect[of env ?fc t member ?w2]
    by (metis prod.collapse)
  have "process_file env outcomes member folder (file_id, name) w
      = emit (Sleep 20)
          (if truthy d then move_file_to_processed ?fc file_id folder ?ws else ?w3)"
    using assms(1) tr assms(3) an by (rule process_file_go)
  with assms(5)
  have pf: "process_file env outcomes member folder (file_id, name) w
      = emit (Sleep 20) (move_file_to_processed ?fc file_id folder ?ws)"
    by simp
  have t3: "trace ?w3 = trace w @ [CallDownload file_id, CallTranscribe name, CallAnalyze member]"
    and pa3: "parents ?w3 = parents w"
    using transcribe_audio_effect[OF tr] by (simp_all add: emit_def)
  have shape: "since w (process_file env outcomes member folder (file_id, name) w)
            = [CallDownload file_id, CallTranscribe name, CallAnalyze member, CallWrite]
                @ evs @ [CallArchive file_id, Sleep 20]"
    if "trace ?ws = trace ?w3 @ CallWrite # evs" for evs
  proof -
    have "trace (process_file env outcomes member folder (file_id, name) w)
            = trace w @ [CallDownload file_id, CallTranscribe name, CallAnalyze member, CallWrite]
                @ evs @ [CallArchive file_id, Sleep 20]"
      unfolding pf using that t3 by (simp add: trace_emit move_effect)
    then show ?thesis by (rule since_append)
  qed
  have events: "\<exists>sheet_evs. since w (process_file env outcomes member folder (file_id, name) w)
            = [CallDownload file_id, CallTranscribe name, CallAnalyze member, CallWrite]
                @ sheet_evs @ [CallArchive file_id, Sleep 20] \<and>
            set sheet_evs \<subseteq> range WroteHeader \<union> range WroteRow \<and>
            (open_exn ?fc \<noteq> None \<or> row_values_exn ?fc \<noteq> None \<or>
             append_row_exn ?fc \<noteq> None \<or> (\<forall>kvs. d \<noteq> JObj kvs) \<longrightarrow>
               set sheet_evs \<subseteq> range WroteHeader)"
  proof (cases "open_exn ?fc \<noteq> None \<or> row_values_exn ?fc \<noteq> None \<or>
             append_row_exn ?fc \<noteq> None \<or> (\<forall>kvs. d \<noteq> JObj kvs)")
    case True
    from write_no_row[OF True, of env ?w3] obtain evs where
      e: "trace ?ws = trace ?w3 @ CallWrite # evs" and sub: "set evs \<subseteq> range WroteHeader"
      by blast
    from shape[OF e] sub show ?thesis by blast
  next
    case False
    from write_effect[of env ?fc d ?w3] obtain evs where
      e: "trace ?ws = trace ?w3 @ CallWrite # evs"
      and sub: "set evs \<subseteq> range WroteHeader \<union> range WroteRow"
      by blast
    from shape[OF e] sub False show ?thesis by blast
  qed
  have moved: "parents (process_file env outcomes member folder (file_id, name) w) file_id
              = insert PROCESSED_FOLDER_ID (parents w file_id - {folder})"
    if "update_exn ?fc = None"
    unfolding pf using move_parents[OF that, of file_id folder ?ws] pa3
    by (simp add: emit_def write_parents)
  from events moved show ?thesis by blast
qed

theorem archive_does_not_depend_on_write_witness:
  "since fresh_world (process_file sample_env (\<lambda>file. list_reply_calls) ''Sharath'' ''folder-1''
      (''f1'', ''call.mp3'') fresh_world)
     = [CallDownload ''f1'', CallTranscribe ''call.mp3'', CallAnalyze ''Sharath'', CallWrite,
        WroteHeader header_keys, CallArchive ''f1'', Sleep 20] \<and>
   parents (process_file sample_env (\<lambda>file. list_reply_calls) ''Sharath'' ''folder-1''
      (''f1'', ''call.mp3'') fresh_world) ''f1'' = {PROCESSED_FOLDER_ID}"
proof -
  have run: "since fresh_world (process_file sample_env (\<lambda>file. list_reply_calls) ''Sharath''
      ''folder-1'' (''f1'', ''call.mp3'') fresh_world)
     = [CallDownload ''f1'', CallTranscribe ''call.mp3'', CallAnalyze ''Sharath'', CallWrite,
        WroteHeader header_keys, CallArchive ''f1'', Sleep 20]"
    by (simp add: run_defs sample_defs list_reply_calls_def header_keys_def)
  have h: "get_media list_reply_calls = Inr [73, 68, 51]"
    "snd (transcribe_audio sample_env list_reply_calls [73, 68, 51] ''call.mp3''
           (emit (CallDownload ''f1'') fresh_world)) = Inr (Some (ascii ''hello  world''))"
    "(ascii ''hello  world'') \<noteq> []"
    "JArr [acme_record] = snd (analyze_transcript_with_gemini sample_env list_reply_calls
        (ascii ''hello  world'') ''Sharath''
        (fst (transcribe_audio sample_env list_reply_calls [73, 68, 51] ''call.mp3''
           (emit (CallDownload ''f1'') fresh_world))))"
    "truthy (JArr [acme_record])"
    "update_exn list_reply_calls = None"
    by (simp_all add: run_defs sample_defs list_reply_calls_def)
  from archive_does_not_depend_on_write
      [where outcomes = "\<lambda>file. list_reply_calls" and file_id = "''f1''" and env = sample_env
         and member = "''Sharath''" and folder = "''folder-1''" and name = "''call.mp3''"
         and w = fresh_world, OF h(1-5)] h(6)
  have "parents (process_file sample_env (\<lambda>file. list_reply_calls) ''Sharath'' ''folder-1''
      (''f1'', ''call.mp3'') fresh_world) ''f1''
     = insert PROCESSED_FOLDER_ID (parents fresh_world ''f1'' - {''folder-1''})"
    by blast
  with run show ?thesis by (simp add: fresh_world_def)
qed

subsection \<open>Credential Provider\<close>

text \<open>
  C7. Without the service-account secret in the environment, or with a secret that
  does not parse, the Credential Provider returns the pair of nulls; and whenever one
  of the two handles is null the run ends there: no folder is listed, no file is
  processed, the world is as it was.
\<close>

theorem missing_secret_is_fatal:
  "(GCP_SERVICE_ACCOUNT_KEY env = None \<or>
    (\<exists>key. GCP_SERVICE_ACCOUNT_KEY env = Some key \<and> json_loads env key = None) \<longrightarrow>
      authenticate_google_services env = (None, None)) \<and>
   (fst (authenticate_google_services env) = None \<or>
    snd (authenticate_google_services env) = None \<longrightarrow>
      main env outcomes w = w)"
  by (auto simp: authenticate_google_services_def main_def split: option.splits prod.splits)

theorem missing_secret_is_fatal_witness:
  "authenticate_google_services no_secret_env = (None, None) \<and>
   main no_secret_env (\<lambda>file. ok_calls) fresh_world = fresh_world \<and>
   authenticate_google_services bad_secret_env = (None, None) \<and>
   main bad_secret_env (\<lambda>file. ok_calls) fresh_world = fresh_world"
  using missing_secret_is_fatal[of no_secret_env "\<lambda>file. ok_calls" fresh_world]
    missing_secret_is_fatal[of bad_secret_env "\<lambda>file. ok_calls" fresh_world]
  by (simp add: no_secret_env_def bad_secret_env_def sample_env_def
      GCP_SERVICE_ACCOUNT_KEY_def acme_reply_def quoted_def)

text \<open>With both handles, the run goes through the folders; on the sample environment it lists each.\<close>

lemma main_runs_when_authenticated:
  "authenticate_google_services env = (Some drive, Some sheets) \<Longrightarrow>
     main env outcomes w = process_folders env outcomes TEAM_FOLDERS w"
  by (simp add: main_def GOOGLE_SHEET_ID_def PROCESSED_FOLDER_ID_def)

lemma sample_run_lists_folders:
  "trace (main sample_env (\<lambda>file. ok_calls) fresh_world) = map (\<lambda>entry. CallList (snd entry)) TEAM_FOLDERS"
  by (simp add: main_def GOOGLE_SHEET_ID_def PROCESSED_FOLDER_ID_def
      authenticate_google_services_def GCP_SERVICE_ACCOUNT_KEY_def sample_env_def
      TEAM_FOLDERS_def process_folder_def emit_def Let_def fresh_world_def)

end
